theory Spec2Isabelle
  imports Main "HOL-Library.Multiset"
begin

section \<open>Data of the program\<close>

text \<open>
  File contents, response bodies and digests are byte strings. Go's \<^verbatim>\<open>error\<close> values are
  modelled by their message; \<^verbatim>\<open>io.EOF\<close> is kept apart because the manifest loop of
  \<^verbatim>\<open>install\<close> compares against it.
\<close>

type_synonym bytes = string

datatype error = EOF | Error string

text \<open>
  \<^verbatim>\<open>type tfVersion struct\<close> (main.go, lines 25-30). The type \<open>'v\<close> stands for a parsed
  \<^verbatim>\<open>*version.Version\<close> of go-version and \<open>'u\<close> for a \<^verbatim>\<open>*url.URL\<close>; both libraries are
  outside the repository. The three URL pointers may be nil (\<open>None\<close>). The Version pointer
  is non-nil in every list that reaches the sorting functions and the two selection loops:
  \<^verbatim>\<open>get\<close> drops a candidate whose Version is nil (line 248) and \<^verbatim>\<open>exec\<close> always
  assigns it (line 498), so the record holds the version itself.
\<close>

record ('v, 'u) tfVersion =
  Version :: 'v
  URL :: "'u option"
  ChecksumURL :: "'u option"
  ChecksumSignatureURL :: "'u option"

section \<open>Sorting (main.go, lines 256-270)\<close>

text \<open>
  Modelled from the spec: \<^verbatim>\<open>sort.Slice\<close> belongs to the Go standard library and is not under
  src/. The spec asks for an ordering by the version comparison that is "stable otherwise".
  The model is the insertion sort that \<^verbatim>\<open>sort.Slice\<close> itself runs on short slices:
  for every index \<open>i\<close> the element is swapped towards the front while it is less than its left
  neighbour. \<open>insertLeft\<close> is that inner loop; its list argument is the sorted prefix
  in reversed order, so that its head is the left neighbour. For longer slices Go does not
  fix the order of elements that compare equal; the general statements below about
  \<open>sortAsc\<close> and \<open>sortDsc\<close> rest only on the result being an ordered permutation of
  the input.
\<close>

fun insertLeft :: "('a \<Rightarrow> 'a \<Rightarrow> bool) \<Rightarrow> 'a \<Rightarrow> 'a list \<Rightarrow> 'a list" where
  "insertLeft lt x [] = [x]"
| "insertLeft lt x (y # ys) = (if lt x y then y # insertLeft lt x ys else x # y # ys)"

fun insertionSort :: "('a \<Rightarrow> 'a \<Rightarrow> bool) \<Rightarrow> 'a list \<Rightarrow> 'a list \<Rightarrow> 'a list" where
  "insertionSort lt sortedRev [] = rev sortedRev"
| "insertionSort lt sortedRev (x # xs) = insertionSort lt (insertLeft lt x sortedRev) xs"

definition sort_Slice :: "('a \<Rightarrow> 'a \<Rightarrow> bool) \<Rightarrow> 'a list \<Rightarrow> 'a list" where
  "sort_Slice lt xs = insertionSort lt [] xs"

text \<open>
  \<^verbatim>\<open>sortAsc\<close> and \<^verbatim>\<open>sortDsc\<close> sort the slice in place and return it; the model returns the
  sorted list. The comparison \<^verbatim>\<open>Version.LessThan\<close> of go-version is the parameter \<open>lt\<close>.
\<close>

definition sortAsc :: "('v \<Rightarrow> 'v \<Rightarrow> bool) \<Rightarrow> ('v, 'u) tfVersion list \<Rightarrow> ('v, 'u) tfVersion list" where
  "sortAsc lt tfVersions = sort_Slice (\<lambda>i j. lt (Version i) (Version j)) tfVersions"

definition sortDsc :: "('v \<Rightarrow> 'v \<Rightarrow> bool) \<Rightarrow> ('v, 'u) tfVersion list \<Rightarrow> ('v, 'u) tfVersion list" where
  "sortDsc lt tfVersions = sort_Slice (\<lambda>i j. lt (Version j) (Version i)) tfVersions"

text \<open>
  What the claims call the total semantic-version comparison: \<open>lt\<close> is asymmetric and
  its complement is transitive (a strict weak order). Two versions are equal under the
  comparison when neither is less than the other.
\<close>

definition total_comparison :: "('v \<Rightarrow> 'v \<Rightarrow> bool) \<Rightarrow> bool" where
  "total_comparison lt \<longleftrightarrow>
     (\<forall>a b. lt a b \<longrightarrow> \<not> lt b a) \<and>
     (\<forall>a b c. \<not> lt a b \<and> \<not> lt b c \<longrightarrow> \<not> lt a c)"

definition same_version :: "('v \<Rightarrow> 'v \<Rightarrow> bool) \<Rightarrow> 'v \<Rightarrow> 'v \<Rightarrow> bool" where
  "same_version lt a b \<longleftrightarrow> \<not> lt a b \<and> \<not> lt b a"

section \<open>The world outside the program\<close>

text \<open>
  The state the program changes: the directories and regular files that exist, the lines
  written to standard output, and the URLs that \<^verbatim>\<open>install\<close> has requested with
  \<^verbatim>\<open>http.Get\<close> (the scraping requests of \<^verbatim>\<open>get\<close> are not part of the model).
\<close>

record 'u world =
  dirs :: "string set"
  files :: "string \<rightharpoonup> bytes"
  stdout :: "string list"
  requests :: "'u list"

text \<open>
  An HTTP response: the bytes its body delivers, and the error that ends the body when it
  does not end with end-of-file.
\<close>

record Response =
  Body :: bytes
  BodyErr :: "error option"

text \<open>
  What one call \<^verbatim>\<open>fmt.Fscanf(resp.Body, "%64x  %s", &checksum, &filename)\<close> returns: the
  number of items parsed, the error, and the two variables it fills.
\<close>

record Scan =
  scan_n :: nat
  scan_err :: "error option"
  checksum :: bytes
  filename :: string

text \<open>An entry of a zip archive: its name, whether opening it fails, the bytes it delivers
  and the error that ends them, if any.\<close>

record ZipFile =
  Name :: string
  OpenErr :: "error option"
  Data :: bytes
  DataErr :: "error option"

text \<open>
  The part of \<^verbatim>\<open>config.Config\<close> that \<^verbatim>\<open>getConstraints\<close> reads (line 293). The field
  \<^verbatim>\<open>Terraform\<close> is a pointer to the \<^verbatim>\<open>terraform\<close> block of the configuration;
  \<^verbatim>\<open>config.LoadDir\<close> leaves it nil (\<open>None\<close>) when the configuration has no such block.
\<close>

record Terraform =
  RequiredVersion :: string

record Config =
  Terraform :: "Terraform option"

text \<open>
  The libraries and the operating system are parameters of the model. Every fallible call
  returns its error as a value. \<open>fmt_Fscanf\<close> gives, for a manifest response, the results
  of the successive calls of \<^verbatim>\<open>fmt.Fscanf\<close> on its body; once they are used up the body is
  at its end and the next call returns \<^verbatim>\<open>io.EOF\<close>. \<open>get\<close> is the result of the catalog
  scraper \<^verbatim>\<open>get()\<close> (lines 145-254), \<open>Inl\<close> when it ends in \<^verbatim>\<open>log.Fatal\<close>. The two
  directory paths are the globals that \<^verbatim>\<open>init\<close> computes. A constraint of go-version is
  modelled by the set of versions it accepts.
\<close>

record ('v, 'u) env =
  LessThan :: "'v \<Rightarrow> 'v \<Rightarrow> bool"
  Version_String :: "'v \<Rightarrow> string"
  NewVersion :: "string \<Rightarrow> error + 'v"
  NewConstraint :: "string \<Rightarrow> error + ('v \<Rightarrow> bool) list"
  URL_Path :: "'u \<Rightarrow> string"
  path_Base :: "string \<Rightarrow> string"
  path_Join :: "string list \<Rightarrow> string"
  http_Get :: "'u \<Rightarrow> error + Response"
  sha256_Sum :: "bytes \<Rightarrow> bytes"
  fmt_Fscanf :: "Response \<Rightarrow> Scan list"
  zip_OpenReader :: "bytes \<Rightarrow> error + ZipFile list"
  os_Mkdir :: "string \<Rightarrow> error option"
  os_Create :: "string \<Rightarrow> error option"
  Chmod :: "string \<Rightarrow> error option"
  os_Open :: "string \<Rightarrow> error option"
  Readdir :: "string \<Rightarrow> error + string list"
  syscall_Exec :: "string \<Rightarrow> error option"
  os_Getwd :: "error + string"
  config_LoadDir :: "string \<Rightarrow> error + Config"
  flag_Parse :: "string \<Rightarrow> string list \<Rightarrow> error option"
  get :: "error + ('v, 'u) tfVersion list"
  tfVersionsDirPath :: string
  cacheDirPath :: string

text \<open>
  How a function of the program ends: it returns, it calls \<^verbatim>\<open>os.Exit\<close>, it calls
  \<^verbatim>\<open>log.Fatal\<close> (message on standard error, exit status 1, deferred calls not run), it
  panics, or \<^verbatim>\<open>syscall.Exec\<close> has replaced the process image by the binary at a path,
  with the given arguments.
\<close>

datatype exit = Return | Exit nat | Fatal error | Panic string | Replaced string "string list"

fun error_String :: "error \<Rightarrow> string" where
  "error_String EOF = ''EOF''"
| "error_String (Error s) = s"

definition println :: "string \<Rightarrow> 'u world \<Rightarrow> 'u world" where
  "println s w = w\<lparr>stdout := stdout w @ [s]\<rparr>"

text \<open>\<^verbatim>\<open>_, err := os.Stat(p); os.IsNotExist(err)\<close>: nothing exists at the path.\<close>

definition IsNotExist :: "'u world \<Rightarrow> string \<Rightarrow> bool" where
  "IsNotExist w p \<longleftrightarrow> p \<notin> dirs w \<and> files w p = None"

section \<open>Constraints (main.go, lines 280-304)\<close>

text \<open>
  Modelled from the spec: \<^verbatim>\<open>version.Constraints\<close> and its method \<^verbatim>\<open>Check\<close> belong to
  go-version and are not under src/. A constraint set is a slice of constraints that a
  version satisfies when it satisfies each of them; the absent (nil) set is the empty slice
  and "means accept any version".
\<close>

definition Check :: "('v \<Rightarrow> bool) list \<Rightarrow> 'v \<Rightarrow> bool" where
  "Check constraints v = list_all (\<lambda>c. c v) constraints"

text \<open>
  \<open>getConstraints\<close> returns the constraints, or the way it ends the process: \<open>Fatal\<close> for
  its three calls of \<^verbatim>\<open>log.Fatal\<close>, and a panic when line 293 reads
  \<^verbatim>\<open>tfConfig.Terraform.RequiredVersion\<close> through a nil \<^verbatim>\<open>Terraform\<close> pointer.
\<close>

definition getConstraints :: "('v, 'u) env \<Rightarrow> exit + ('v \<Rightarrow> bool) list" where
  "getConstraints E =
     (case os_Getwd E of
        Inl e \<Rightarrow> Inl (Fatal e)
      | Inr currentDir \<Rightarrow>
          (case config_LoadDir E currentDir of
             Inl e \<Rightarrow> Inl (Fatal e)
           | Inr tfConfig \<Rightarrow>
               (case Terraform tfConfig of
                  None \<Rightarrow> Inl (Panic ''nil pointer dereference'')
                | Some terraform \<Rightarrow>
                    if RequiredVersion terraform = [] then Inr []
                    else (case NewConstraint E (RequiredVersion terraform) of
                            Inl e \<Rightarrow> Inl (Fatal e)
                          | Inr constraints \<Rightarrow> Inr constraints))))"

section \<open>install (main.go, lines 306-467)\<close>

text \<open>
  The deferred calls of \<^verbatim>\<open>install\<close> that change the world (lines 330-338): when
  \<^verbatim>\<open>install\<close> returns, the archive in the cache directory is removed. Closing a file, a
  response body or the archive is taken to succeed.
\<close>

definition install_deferred :: "string \<Rightarrow> 'u world \<Rightarrow> 'u world" where
  "install_deferred archivePath w = w\<lparr>files := (files w)(archivePath := None)\<rparr>"

text \<open>
  The manifest loop (lines 375-404). \<open>Proceed\<close> is \<^verbatim>\<open>break\<close>, \<open>Abort\<close> is the
  \<^verbatim>\<open>return\<close> of line 396 and \<open>Die\<close> is \<^verbatim>\<open>log.Fatal\<close>.
\<close>

datatype verdict = Proceed | Abort | Die error

fun install_scan :: "string \<Rightarrow> bytes \<Rightarrow> Scan list \<Rightarrow> 'u world \<Rightarrow> 'u world \<times> verdict" where
  "install_scan base digest [] w = (println ''No checksum found'' w, Proceed)"
| "install_scan base digest (s # rest) w =
     (case scan_err s of
        Some EOF \<Rightarrow> (println ''No checksum found'' w, Proceed)
      | Some (Error m) \<Rightarrow> (w, Die (Error m))
      | None \<Rightarrow>
          if scan_n s = 2 then
            (if filename s = base then
               (if digest \<noteq> checksum s then (println ''Checksum verification failed'' w, Abort)
                else (w, Proceed))
             else install_scan base digest rest w)
          else install_scan base digest rest (println ''Bad format'' w))"

text \<open>Lines 360-406.\<close>

definition install_verify ::
  "('v, 'u) env \<Rightarrow> ('v, 'u) tfVersion \<Rightarrow> string \<Rightarrow> bytes \<Rightarrow> 'u world \<Rightarrow> 'u world \<times> verdict" where
  "install_verify E tfVersion base digest w =
     (case ChecksumURL tfVersion of
        None \<Rightarrow> (println ''No checksum found'' w, Proceed)
      | Some checksumURL \<Rightarrow>
          (let w1 = w\<lparr>requests := requests w @ [checksumURL]\<rparr> in
           case http_Get E checksumURL of
             Inl e \<Rightarrow> (w1, Die e)
           | Inr resp \<Rightarrow> install_scan base digest (fmt_Fscanf E resp) w1))"

text \<open>The loop over the entries of the archive (lines 420-458).\<close>

fun install_extract ::
  "('v, 'u) env \<Rightarrow> string \<Rightarrow> ZipFile list \<Rightarrow> 'u world \<Rightarrow> 'u world \<times> error option" where
  "install_extract E tfVersionDirPath [] w = (w, None)"
| "install_extract E tfVersionDirPath (file # rest) w =
     (if Name file = ''terraform'' then
        (case OpenErr file of
           Some e \<Rightarrow> (w, Some e)
         | None \<Rightarrow>
             (case os_Create E (path_Join E [tfVersionDirPath, path_Base E (Name file)]) of
                Some e \<Rightarrow> (w, Some e)
              | None \<Rightarrow>
                  (case DataErr file of
                     Some e \<Rightarrow>
                       (w\<lparr>files := (files w)(path_Join E [tfVersionDirPath, path_Base E (Name file)] \<mapsto> Data file)\<rparr>,
                        Some e)
                   | None \<Rightarrow>
                       (case Chmod E (path_Join E [tfVersionDirPath, path_Base E (Name file)]) of
                          Some e \<Rightarrow>
                            (w\<lparr>files := (files w)(path_Join E [tfVersionDirPath, path_Base E (Name file)] \<mapsto> Data file)\<rparr>,
                             Some e)
                        | None \<Rightarrow>
                            install_extract E tfVersionDirPath rest
                              (w\<lparr>files := (files w)(path_Join E [tfVersionDirPath, path_Base E (Name file)] \<mapsto> Data file)\<rparr>)))))
      else install_extract E tfVersionDirPath rest w)"

text \<open>Opening the archive, extracting, and the success message (lines 408-462).\<close>

definition install_unpack ::
  "('v, 'u) env \<Rightarrow> ('v, 'u) tfVersion \<Rightarrow> string \<Rightarrow> string \<Rightarrow> 'u world \<Rightarrow> 'u world \<times> exit" where
  "install_unpack E tfVersion tfVersionDirPath archivePath w =
     (case (case files w archivePath of
              None \<Rightarrow> Inl (Error ''no such file or directory'')
            | Some content \<Rightarrow> zip_OpenReader E content) of
        Inl e \<Rightarrow> (w, Fatal e)
      | Inr archive \<Rightarrow>
          (case install_extract E tfVersionDirPath archive w of
             (w', Some e) \<Rightarrow> (w', Fatal e)
           | (w', None) \<Rightarrow>
               (install_deferred archivePath
                  (println (''Successfully installed Terraform version '' @ Version_String E (Version tfVersion)) w'),
                Return)))"

text \<open>
  Creating the archive file, downloading into it while hashing, verifying, unpacking
  (lines 323-462). A nil \<^verbatim>\<open>URL\<close> is dereferenced at line 323.
\<close>

definition install_fetch ::
  "('v, 'u) env \<Rightarrow> ('v, 'u) tfVersion \<Rightarrow> string \<Rightarrow> 'u world \<Rightarrow> 'u world \<times> exit" where
  "install_fetch E tfVersion tfVersionDirPath w =
     (case URL tfVersion of
        None \<Rightarrow> (w, Panic ''nil pointer dereference'')
      | Some url \<Rightarrow>
          (let archivePath = path_Join E [cacheDirPath E, path_Base E (URL_Path E url)] in
           case os_Create E archivePath of
             Some e \<Rightarrow> (w, Fatal e)
           | None \<Rightarrow>
               (let w1 = w\<lparr>files := (files w)(archivePath \<mapsto> []), requests := requests w @ [url]\<rparr> in
                case http_Get E url of
                  Inl e \<Rightarrow> (w1, Fatal e)
                | Inr resp \<Rightarrow>
                    (let w2 = w1\<lparr>files := (files w1)(archivePath \<mapsto> Body resp)\<rparr> in
                     case BodyErr resp of
                       Some e \<Rightarrow> (w2, Fatal e)
                     | None \<Rightarrow>
                         (case install_verify E tfVersion (path_Base E (URL_Path E url))
                                 (sha256_Sum E (Body resp)) w2 of
                            (w3, Die e) \<Rightarrow> (w3, Fatal e)
                          | (w3, Abort) \<Rightarrow> (install_deferred archivePath w3, Return)
                          | (w3, Proceed) \<Rightarrow> install_unpack E tfVersion tfVersionDirPath archivePath w3)))))"

text \<open>The body of the selection loop for a candidate that satisfies the constraints
  (lines 313-462).\<close>

definition install_candidate ::
  "('v, 'u) env \<Rightarrow> ('v, 'u) tfVersion \<Rightarrow> 'u world \<Rightarrow> 'u world \<times> exit" where
  "install_candidate E tfVersion w =
     (let tfVersionDirPath = path_Join E [tfVersionsDirPath E, Version_String E (Version tfVersion)] in
      if IsNotExist w tfVersionDirPath then
        (case os_Mkdir E tfVersionDirPath of
           Some e \<Rightarrow> (w, Fatal e)
         | None \<Rightarrow> install_fetch E tfVersion tfVersionDirPath (w\<lparr>dirs := insert tfVersionDirPath (dirs w)\<rparr>))
      else install_fetch E tfVersion tfVersionDirPath w)"

text \<open>The selection loop (lines 311-466): every path through the body of the
  \<^verbatim>\<open>if\<close> leaves \<^verbatim>\<open>install\<close>.\<close>

fun install_loop ::
  "('v, 'u) env \<Rightarrow> ('v \<Rightarrow> bool) list \<Rightarrow> ('v, 'u) tfVersion list \<Rightarrow> 'u world \<Rightarrow> 'u world \<times> exit" where
  "install_loop E constraints [] w =
     (println ''None of the available Terraform versions matched the constraints'' w, Return)"
| "install_loop E constraints (tfVersion # rest) w =
     (if Check constraints (Version tfVersion) then install_candidate E tfVersion w
      else install_loop E constraints rest w)"

definition install :: "('v, 'u) env \<Rightarrow> 'u world \<Rightarrow> 'u world \<times> exit" where
  "install E w =
     (case get E of
        Inl e \<Rightarrow> (w, Fatal e)
      | Inr got \<Rightarrow>
          (case getConstraints E of
             Inl stop \<Rightarrow> (w, stop)
           | Inr constraints \<Rightarrow> install_loop E constraints (sortDsc (LessThan E) got) w))"

section \<open>list (main.go, lines 272-278)\<close>

definition list_cmd :: "('v, 'u) env \<Rightarrow> 'u world \<Rightarrow> 'u world \<times> exit" where
  "list_cmd E w =
     (case get E of
        Inl e \<Rightarrow> (w, Fatal e)
      | Inr got \<Rightarrow>
          (foldl (\<lambda>w' tfVersion. println (Version_String E (Version tfVersion)) w') w
             (sortAsc (LessThan E) got),
           Return))"

section \<open>exec (main.go, lines 469-527)\<close>

text \<open>Parsing the names of the entries of the install root (lines 488-500).\<close>

fun exec_scan :: "('v, 'u) env \<Rightarrow> string list \<Rightarrow> error + ('v, 'u) tfVersion list" where
  "exec_scan E [] = Inr []"
| "exec_scan E (name # names) =
     (case NewVersion E name of
        Inl e \<Rightarrow> Inl e
      | Inr version \<Rightarrow>
          (case exec_scan E names of
             Inl e \<Rightarrow> Inl e
           | Inr tfVersions \<Rightarrow>
               Inr (\<lparr>Version = version, URL = None, ChecksumURL = None, ChecksumSignatureURL = None\<rparr>
                    # tfVersions)))"

text \<open>
  The selection loop (lines 506-524). \<open>None\<close> means that the loop was left, by
  \<^verbatim>\<open>break\<close> or at its end, and \<^verbatim>\<open>exec\<close> goes on to line 526.
\<close>

fun exec_loop ::
  "('v, 'u) env \<Rightarrow> ('v \<Rightarrow> bool) list \<Rightarrow> string list \<Rightarrow> ('v, 'u) tfVersion list \<Rightarrow> 'u world
     \<Rightarrow> 'u world \<times> exit option" where
  "exec_loop E constraints args [] w = (w, None)"
| "exec_loop E constraints args (tfVersion # rest) w =
     (if Check constraints (Version tfVersion) then
        (if IsNotExist w (path_Join E [tfVersionsDirPath E, Version_String E (Version tfVersion), ''terraform''])
         then (println (''Found Terraform version '' @ Version_String E (Version tfVersion)
                        @ '' but Terraform binary is missing'') w, None)
         else (case syscall_Exec E (path_Join E [tfVersionsDirPath E, Version_String E (Version tfVersion), ''terraform'']) of
                 None \<Rightarrow> (w, Some (Replaced (path_Join E [tfVersionsDirPath E, Version_String E (Version tfVersion), ''terraform''])
                                      (''terraform'' # args)))
               | Some e \<Rightarrow> (w, Some (Fatal e))))
      else exec_loop E constraints args rest w)"

definition exec :: "('v, 'u) env \<Rightarrow> string list \<Rightarrow> 'u world \<Rightarrow> 'u world \<times> exit" where
  "exec E args w =
     (case os_Open E (tfVersionsDirPath E) of
        Some e \<Rightarrow> (w, Fatal e)
      | None \<Rightarrow>
          (case Readdir E (tfVersionsDirPath E) of
             Inl e \<Rightarrow> (w, Fatal e)
           | Inr names \<Rightarrow>
               (case exec_scan E names of
                  Inl e \<Rightarrow> (w, Fatal e)
                | Inr tfVersions \<Rightarrow>
                    (case getConstraints E of
                       Inl stop \<Rightarrow> (w, stop)
                     | Inr constraints \<Rightarrow>
                         (case exec_loop E constraints args (sortDsc (LessThan E) tfVersions) w of
                            (w', Some x) \<Rightarrow> (w', x)
                          | (w', None) \<Rightarrow>
                              (println ''None of the installed Terraform versions matched the constraints'' w',
                               Return))))))"

section \<open>main (main.go, lines 91-123)\<close>

text \<open>
  \<open>Args\<close> is \<^verbatim>\<open>os.Args\<close>. Reading \<^verbatim>\<open>os.Args[0]\<close> of an empty slice panics. The
  \<^verbatim>\<open>switch\<close> has no default case. Returning from \<^verbatim>\<open>main\<close> ends the process with
  status 0.
\<close>

definition main :: "('v, 'u) env \<Rightarrow> string list \<Rightarrow> 'u world \<Rightarrow> 'u world \<times> exit" where
  "main E Args w =
     (case Args of
        [] \<Rightarrow> (w, Panic ''index out of range'')
      | arg0 # args \<Rightarrow>
          if path_Base E arg0 = ''terraform'' then exec E args w
          else if length Args \<ge> 2 then
            (if Args ! 1 = ''list'' then
               (case flag_Parse E ''list'' (drop 2 Args) of
                  Some e \<Rightarrow> (println (error_String e) w, Exit 1)
                | None \<Rightarrow> list_cmd E w)
             else if Args ! 1 = ''install'' then
               (case flag_Parse E ''install'' (drop 2 Args) of
                  Some e \<Rightarrow> (println (error_String e) w, Exit 1)
                | None \<Rightarrow> install E w)
             else if Args ! 1 = ''exec'' then
               (case flag_Parse E ''exec'' (drop 2 Args) of
                  Some e \<Rightarrow> (println (error_String e) w, Exit 1)
                | None \<Rightarrow> exec E (drop 2 Args) w)
             else (w, Return))
          else (println ''Too few arguments'' w, Exit 1))"

fun exit_status :: "exit \<Rightarrow> nat option" where
  "exit_status Return = Some 0"
| "exit_status (Exit n) = Some n"
| "exit_status (Fatal e) = Some 1"
| "exit_status (Panic m) = Some 2"
| "exit_status (Replaced p args) = None"

text \<open>Candidates with equal Versions are the same candidate.\<close>

definition ties_identical :: "('v \<Rightarrow> 'v \<Rightarrow> bool) \<Rightarrow> ('v, 'u) tfVersion list \<Rightarrow> bool" where
  "ties_identical lt xs \<longleftrightarrow>
     list_all (\<lambda>a. list_all (\<lambda>b. same_version lt (Version a) (Version b) \<longrightarrow> a = b) xs) xs"

section \<open>Names used in the statements\<close>

text \<open>
  Names for the paths that \<open>install\<close> computes: the install directory of a candidate
  (line 313), the archive in the cache directory (line 323) and the binary in the install
  directory (line 434).
\<close>

definition install_dir :: "('v, 'u) env \<Rightarrow> ('v, 'u) tfVersion \<Rightarrow> string" where
  "install_dir E tfVersion = path_Join E [tfVersionsDirPath E, Version_String E (Version tfVersion)]"

definition archive_path :: "('v, 'u) env \<Rightarrow> 'u \<Rightarrow> string" where
  "archive_path E url = path_Join E [cacheDirPath E, path_Base E (URL_Path E url)]"

definition binary_path :: "('v, 'u) env \<Rightarrow> ('v, 'u) tfVersion \<Rightarrow> string" where
  "binary_path E tfVersion = path_Join E [install_dir E tfVersion, path_Base E ''terraform'']"

text \<open>The world after the directory check of lines 315-321, when \<open>os.Mkdir\<close> does not fail.\<close>

definition with_dir :: "string \<Rightarrow> 'u world \<Rightarrow> 'u world" where
  "with_dir dir w = (if IsNotExist w dir then w\<lparr>dirs := insert dir (dirs w)\<rparr> else w)"

text \<open>The world after the download of lines 323-358, when nothing fails.\<close>

definition downloaded :: "string \<Rightarrow> 'u \<Rightarrow> bytes \<Rightarrow> 'u world \<Rightarrow> 'u world" where
  "downloaded archivePath url body w =
     w\<lparr>requests := requests w @ [url], files := (files w)(archivePath \<mapsto> body)\<rparr>"

text \<open>A manifest record that parses and names another file.\<close>

definition other_record :: "string \<Rightarrow> Scan \<Rightarrow> bool" where
  "other_record base s \<longleftrightarrow> scan_err s = None \<and> scan_n s = 2 \<and> filename s \<noteq> base"

text \<open>An archive entry that, if it is the binary, can be opened and read to its end.\<close>

definition entry_ok :: "ZipFile \<Rightarrow> bool" where
  "entry_ok file \<longleftrightarrow> (Name file = ''terraform'' \<longrightarrow> OpenErr file = None \<and> DataErr file = None)"

section \<open>Example values for concrete runs\<close>

text \<open>
  Versions \<open>major.minor.patch\<close> without prerelease part, compared segment by segment.
\<close>

type_synonym semver = "nat \<times> nat \<times> nat"

fun semver_less :: "semver \<Rightarrow> semver \<Rightarrow> bool" where
  "semver_less (a, b, c) (d, e, f) \<longleftrightarrow> a < d \<or> (a = d \<and> (b < e \<or> (b = e \<and> c < f)))"

definition candidate :: "semver \<Rightarrow> string \<Rightarrow> (semver, string) tfVersion" where
  "candidate v u = \<lparr>Version = v, URL = Some u, ChecksumURL = None, ChecksumSignatureURL = None\<rparr>"

definition candidate_sums :: "semver \<Rightarrow> string \<Rightarrow> string \<Rightarrow> (semver, string) tfVersion" where
  "candidate_sums v u sums =
     \<lparr>Version = v, URL = Some u, ChecksumURL = Some sums, ChecksumSignatureURL = None\<rparr>"

fun decimal :: "nat \<Rightarrow> string" where
  "decimal n =
     (if n < 10 then [''0123456789'' ! n] else decimal (n div 10) @ [''0123456789'' ! (n mod 10)])"

declare decimal.simps [simp del]

fun semver_String :: "semver \<Rightarrow> string" where
  "semver_String (a, b, c) = decimal a @ ''.'' @ decimal b @ ''.'' @ decimal c"

definition semver_parse :: "string \<Rightarrow> error + semver" where
  "semver_parse s =
     (case map_of [(''0.12.0'', (0, 12, 0)), (''0.13.0'', (0, 13, 0)), (''1.0.0'', (1, 0, 0))] s of
        Some v \<Rightarrow> Inr v
      | None \<Rightarrow> Inl (Error (''Malformed version: '' @ s)))"

definition at_least :: "semver \<Rightarrow> semver \<Rightarrow> bool" where
  "at_least bound v \<longleftrightarrow> \<not> semver_less v bound"

definition below :: "semver \<Rightarrow> semver \<Rightarrow> bool" where
  "below bound v \<longleftrightarrow> semver_less v bound"

definition constraint_parse :: "string \<Rightarrow> error + (semver \<Rightarrow> bool) list" where
  "constraint_parse s =
     (if s = ''>= 0.13.0, < 1.0.0'' then Inr [at_least (0, 13, 0), below (1, 0, 0)]
      else if s = ''>= 0.13.0'' then Inr [at_least (0, 13, 0)]
      else if s = ''> 1.0.0'' then Inr [below (0, 0, 0)]
      else Inl (Error ''Malformed constraint''))"

fun join_slash :: "string list \<Rightarrow> string" where
  "join_slash [] = []"
| "join_slash [p] = p"
| "join_slash (p # q # ps) = p @ ''/'' @ join_slash (q # ps)"

definition last_element :: "string \<Rightarrow> string" where
  "last_element p = rev (takeWhile (\<lambda>c. c \<noteq> CHR ''/'') (rev p))"

definition record_of :: "bytes \<Rightarrow> string \<Rightarrow> Scan" where
  "record_of digest name = \<lparr>scan_n = 2, scan_err = None, checksum = digest, filename = name\<rparr>"

definition sums_scans :: "Response \<Rightarrow> Scan list" where
  "sums_scans resp =
     (if Body resp = ''mismatch'' then [record_of ''11'' ''a.zip'', record_of ''22'' ''t.zip'']
      else if Body resp = ''good'' then [record_of ''11'' ''a.zip'', record_of ''#PK'' ''t.zip'']
      else if Body resp = ''other'' then [record_of ''11'' ''a.zip'']
      else if Body resp = ''malformed'' then
        [\<lparr>scan_n = 0, scan_err = Some (Error ''no hex data for %x string''), checksum = [], filename = []\<rparr>,
         record_of ''#PK'' ''t.zip'']
      else [])"

definition demo_Get :: "string \<Rightarrow> error + Response" where
  "demo_Get u =
     (if u = ''/sums/mismatch'' then Inr \<lparr>Body = ''mismatch'', BodyErr = None\<rparr>
      else if u = ''/sums/good'' then Inr \<lparr>Body = ''good'', BodyErr = None\<rparr>
      else if u = ''/sums/other'' then Inr \<lparr>Body = ''other'', BodyErr = None\<rparr>
      else if u = ''/sums/malformed'' then Inr \<lparr>Body = ''malformed'', BodyErr = None\<rparr>
      else Inr \<lparr>Body = ''PK'', BodyErr = None\<rparr>)"

definition demo_zip :: "bytes \<Rightarrow> error + ZipFile list" where
  "demo_zip content =
     (if content = ''PK'' then
        Inr [\<lparr>Name = ''README'', OpenErr = None, Data = ''text'', DataErr = None\<rparr>,
             \<lparr>Name = ''terraform'', OpenErr = None, Data = ''new binary'', DataErr = None\<rparr>]
      else Inl (Error ''zip: not a valid zip file''))"

definition demo_config :: "string \<Rightarrow> Config" where
  "demo_config required = \<lparr>Terraform = Some \<lparr>RequiredVersion = required\<rparr>\<rparr>"

text \<open>
  An environment in which no system call fails. Its parameters are the required-version
  string of the project, the names of the entries of the install root, and the
  candidates that the catalog scraper returns.
\<close>

definition demo ::
  "string \<Rightarrow> string list \<Rightarrow> (semver, string) tfVersion list \<Rightarrow> (semver, string) env" where
  "demo required names catalog =
     \<lparr>LessThan = semver_less,
      Version_String = semver_String,
      NewVersion = semver_parse,
      NewConstraint = constraint_parse,
      URL_Path = (\<lambda>u. u),
      path_Base = last_element,
      path_Join = join_slash,
      http_Get = demo_Get,
      sha256_Sum = (\<lambda>b. ''#'' @ b),
      fmt_Fscanf = sums_scans,
      zip_OpenReader = demo_zip,
      os_Mkdir = (\<lambda>p. None),
      os_Create = (\<lambda>p. None),
      Chmod = (\<lambda>p. None),
      os_Open = (\<lambda>p. None),
      Readdir = (\<lambda>p. Inr names),
      syscall_Exec = (\<lambda>p. None),
      os_Getwd = Inr ''/project'',
      config_LoadDir = (\<lambda>d. Inr (demo_config required)),
      flag_Parse = (\<lambda>name args. None),
      get = Inr catalog,
      tfVersionsDirPath = ''/v'',
      cacheDirPath = ''/c''\<rparr>"

text \<open>The same environment for a project whose configuration has no \<open>terraform\<close> block.\<close>

definition demo_bare :: "string list \<Rightarrow> (semver, string) tfVersion list \<Rightarrow> (semver, string) env" where
  "demo_bare names catalog = (demo [] names catalog)\<lparr>config_LoadDir := (\<lambda>d. Inr \<lparr>Terraform = None\<rparr>)\<rparr>"

definition world0 :: "string world" where
  "world0 = \<lparr>dirs = {''/v'', ''/c''}, files = Map.empty, stdout = [], requests = []\<rparr>"

definition demo_catalog :: "(semver, string) tfVersion list" where
  "demo_catalog = [candidate (0, 13, 0) ''/t.zip'', candidate (1, 0, 0) ''/u.zip'', candidate (0, 12, 0) ''/s.zip'']"

definition world1 :: "string world" where
  "world1 = \<lparr>dirs = {''/v'', ''/c'', ''/v/0.13.0'', ''/v/1.0.0''},
             files = [''/v/0.13.0/terraform'' \<mapsto> ''old binary''], stdout = [], requests = []\<rparr>"

definition installed :: "semver \<Rightarrow> (semver, string) tfVersion" where
  "installed v = \<lparr>Version = v, URL = None, ChecksumURL = None, ChecksumSignatureURL = None\<rparr>"

section \<open>Properties of the sorting functions\<close>

lemma mset_insertLeft: "mset (insertLeft lt x ys) = add_mset x (mset ys)"
  by (induction ys) simp_all

lemma mset_insertionSort: "mset (insertionSort lt acc xs) = mset acc + mset xs"
  by (induction xs arbitrary: acc) (simp_all add: mset_insertLeft)

lemma mset_sort_Slice: "mset (sort_Slice lt xs) = mset xs"
  by (simp add: sort_Slice_def mset_insertionSort)

lemma set_sort_Slice: "set (sort_Slice lt xs) = set xs"
  by (rule mset_eq_setD) (rule mset_sort_Slice)

lemma set_insertLeft: "set (insertLeft lt x ys) = insert x (set ys)"
  by (induction ys) auto

lemma total_comparison_asym: "total_comparison lt \<Longrightarrow> lt a b \<Longrightarrow> \<not> lt b a"
  unfolding total_comparison_def by blast

lemma total_comparison_irrefl: "total_comparison lt \<Longrightarrow> \<not> lt a a"
  using total_comparison_asym [of lt a a] by blast

lemma total_comparison_negtrans:
  "total_comparison lt \<Longrightarrow> \<not> lt a b \<Longrightarrow> \<not> lt b c \<Longrightarrow> \<not> lt a c"
  unfolding total_comparison_def by blast

lemma total_comparison_flip: "total_comparison lt \<Longrightarrow> total_comparison (\<lambda>a b. lt b a)"
  unfolding total_comparison_def by blast

lemma total_comparison_on: "total_comparison lt \<Longrightarrow> total_comparison (\<lambda>a b. lt (f a) (f b))"
  unfolding total_comparison_def by blast

lemma sorted_insertLeft:
  assumes "total_comparison lt" and "sorted_wrt (\<lambda>a b. \<not> lt a b) ys"
  shows "sorted_wrt (\<lambda>a b. \<not> lt a b) (insertLeft lt x ys)"
  using assms(2)
proof (induction ys)
  case Nil
  then show ?case by simp
next
  case (Cons y ys)
  show ?case
  proof (cases "lt x y")
    case True
    have "\<not> lt y x" using assms(1) True by (rule total_comparison_asym)
    with Cons True show ?thesis by (auto simp: set_insertLeft)
  next
    case False
    have "\<not> lt x z" if "z \<in> set ys" for z
    proof -
      from Cons.prems that have "\<not> lt y z" by simp
      with False show ?thesis using total_comparison_negtrans [OF assms(1), of x y z] by blast
    qed
    with Cons.prems False show ?thesis by auto
  qed
qed

lemma sorted_insertionSort:
  assumes "total_comparison lt"
  shows "sorted_wrt (\<lambda>a b. \<not> lt a b) acc \<Longrightarrow>
         sorted_wrt (\<lambda>a b. \<not> lt b a) (insertionSort lt acc xs)"
proof (induction xs arbitrary: acc)
  case Nil
  then show ?case by (simp add: sorted_wrt_rev)
next
  case (Cons x xs)
  then show ?case using sorted_insertLeft [OF assms] by simp
qed

lemma sorted_sort_Slice:
  "total_comparison lt \<Longrightarrow> sorted_wrt (\<lambda>a b. \<not> lt b a) (sort_Slice lt xs)"
  by (simp add: sort_Slice_def sorted_insertionSort)

lemma sorted_sortDsc:
  assumes "total_comparison lt"
  shows "sorted_wrt (\<lambda>a b. \<not> lt (Version a) (Version b)) (sortDsc lt xs)"
  unfolding sortDsc_def
  using sorted_sort_Slice [OF total_comparison_flip [OF total_comparison_on [OF assms, of Version]], of xs]
  by simp

lemma set_sortDsc: "set (sortDsc lt xs) = set xs"
  by (simp add: sortDsc_def set_sort_Slice)

lemma find_descending_is_greatest:
  assumes "total_comparison lt"
    and "sorted_wrt (\<lambda>a b. \<not> lt (Version a) (Version b)) ys"
    and "find P ys = Some c" and "d \<in> set ys" and "P d"
  shows "\<not> lt (Version c) (Version d)"
  using assms(2-5)
proof (induction ys)
  case Nil
  then show ?case by simp
next
  case (Cons y ys)
  show ?case
  proof (cases "P y")
    case True
    with Cons.prems have "c = y" by simp
    with Cons.prems(1,3) total_comparison_irrefl [OF assms(1), of "Version y"]
    show ?thesis by auto
  next
    case False
    with Cons.prems have "find P ys = Some c" and "d \<in> set ys" by auto
    with Cons.prems show ?thesis using Cons.IH by simp
  qed
qed

lemma same_version_lt_left:
  assumes "total_comparison lt" and "\<not> lt x y" and "\<not> lt y x"
  shows "lt x v = lt y v"
  using total_comparison_negtrans [OF assms(1), of x y v]
        total_comparison_negtrans [OF assms(1), of y x v] assms(2,3) by blast

lemma sorted_no_smaller_than_head:
  assumes "total_comparison lt" and "sorted_wrt (\<lambda>a b. \<not> lt b a) (y # ys)"
  shows "filter (\<lambda>z. lt z y) (y # ys) = []"
  using assms total_comparison_irrefl [OF assms(1), of y] by (auto simp: filter_empty_conv)

lemma sorted_same_counts_all2:
  assumes tc: "total_comparison lt"
  shows "length xs = length ys \<Longrightarrow>
         sorted_wrt (\<lambda>a b. \<not> lt b a) xs \<Longrightarrow> sorted_wrt (\<lambda>a b. \<not> lt b a) ys \<Longrightarrow>
         (\<And>v. length (filter (\<lambda>z. lt z v) xs) = length (filter (\<lambda>z. lt z v) ys)) \<Longrightarrow>
         list_all2 (\<lambda>a b. \<not> lt a b \<and> \<not> lt b a) xs ys"
proof (induction xs ys rule: list_induct2)
  case Nil
  then show ?case by simp
next
  case (Cons x xs y ys)
  have nxy: "\<not> lt x y"
  proof
    assume "lt x y"
    then have "length (filter (\<lambda>z. lt z y) (x # xs)) > 0" by simp
    moreover have "filter (\<lambda>z. lt z y) (y # ys) = []"
      using tc Cons.prems(2) by (rule sorted_no_smaller_than_head)
    ultimately show False using Cons.prems(3) [of y] by simp
  qed
  have nyx: "\<not> lt y x"
  proof
    assume "lt y x"
    then have "length (filter (\<lambda>z. lt z x) (y # ys)) > 0" by simp
    moreover have "filter (\<lambda>z. lt z x) (x # xs) = []"
      using tc Cons.prems(1) by (rule sorted_no_smaller_than_head)
    ultimately show False using Cons.prems(3) [of x] by simp
  qed
  have "length (filter (\<lambda>z. lt z v) xs) = length (filter (\<lambda>z. lt z v) ys)" for v
    using Cons.prems(3) [of v] same_version_lt_left [OF tc nxy nyx, of v] by (simp split: if_splits)
  moreover have "sorted_wrt (\<lambda>a b. \<not> lt b a) xs" "sorted_wrt (\<lambda>a b. \<not> lt b a) ys"
    using Cons.prems(1,2) by simp_all
  ultimately have "list_all2 (\<lambda>a b. \<not> lt a b \<and> \<not> lt b a) xs ys"
    using Cons.IH by blast
  with nxy nyx show ?case by simp
qed

lemma length_filter_mset_eq:
  assumes "mset xs = mset ys"
  shows "length (filter P xs) = length (filter P ys)"
proof -
  have "mset (filter P xs) = mset (filter P ys)" using assms by simp
  then show ?thesis by (rule mset_eq_length)
qed

lemma sorts_mirror:
  assumes tc: "total_comparison lt"
  shows "list_all2 (\<lambda>a b. \<not> lt a b \<and> \<not> lt b a) (sort_Slice lt xs) (rev (sort_Slice (\<lambda>a b. lt b a) xs))"
proof (rule sorted_same_counts_all2 [OF tc])
  have m: "mset (sort_Slice lt xs) = mset (rev (sort_Slice (\<lambda>a b. lt b a) xs))"
    by (simp add: mset_sort_Slice)
  show "length (sort_Slice lt xs) = length (rev (sort_Slice (\<lambda>a b. lt b a) xs))"
    using m by (rule mset_eq_length)
  show "sorted_wrt (\<lambda>a b. \<not> lt b a) (sort_Slice lt xs)"
    using tc by (rule sorted_sort_Slice)
  show "sorted_wrt (\<lambda>a b. \<not> lt b a) (rev (sort_Slice (\<lambda>a b. lt b a) xs))"
    using sorted_sort_Slice [OF total_comparison_flip [OF tc], of xs] by (simp add: sorted_wrt_rev)
  show "length (filter (\<lambda>z. lt z v) (sort_Slice lt xs)) =
        length (filter (\<lambda>z. lt z v) (rev (sort_Slice (\<lambda>a b. lt b a) xs)))" for v
    using m by (rule length_filter_mset_eq)
qed

section \<open>The steps of install\<close>

lemma stdout_println: "stdout (println s w) = stdout w @ [s]"
  by (simp add: println_def)

lemma install_loop_find:
  "install_loop E constraints tfVersions w =
     (case find (\<lambda>c. Check constraints (Version c)) tfVersions of
        None \<Rightarrow> (println ''None of the available Terraform versions matched the constraints'' w, Return)
      | Some c \<Rightarrow> install_candidate E c w)"
  by (induction tfVersions) simp_all

text \<open>
  The claims about the installation of the selected candidate are stated for
  \<open>install_candidate\<close>, the body that \<open>install\<close> runs for it.
\<close>

lemma install_selected:
  assumes "get E = Inr cands" and "getConstraints E = Inr constraints"
    and "find (\<lambda>c. Check constraints (Version c)) (sortDsc (LessThan E) cands) = Some c"
  shows "install E w = install_candidate E c w"
  using assms by (simp add: install_def install_loop_find)

lemma install_scan_Abort:
  "install_scan base digest scans w = (w', Abort) \<Longrightarrow>
     stdout w' \<noteq> [] \<and> last (stdout w') = ''Checksum verification failed''"
  by (induction scans arbitrary: w)
     (auto simp: stdout_println split: option.splits error.splits if_splits)

lemma install_verify_Abort:
  "install_verify E c base digest w = (w', Abort) \<Longrightarrow>
     stdout w' \<noteq> [] \<and> last (stdout w') = ''Checksum verification failed''"
  unfolding install_verify_def
  by (auto simp: Let_def split: option.splits sum.splits dest: install_scan_Abort)

lemma install_unpack_Return:
  "install_unpack E c dir archivePath w = (w', Return) \<Longrightarrow>
     stdout w' \<noteq> [] \<and>
     last (stdout w') = ''Successfully installed Terraform version '' @ Version_String E (Version c)"
  unfolding install_unpack_def
  by (auto simp: install_deferred_def stdout_println split: option.splits sum.splits prod.splits)

lemma install_fetch_Return:
  "install_fetch E c dir w = (w', Return) \<Longrightarrow>
     stdout w' \<noteq> [] \<and>
     (last (stdout w') = ''Checksum verification failed'' \<or>
      last (stdout w') = ''Successfully installed Terraform version '' @ Version_String E (Version c))"
  unfolding install_fetch_def
  by (auto simp: Let_def install_deferred_def
      split: option.splits sum.splits prod.splits verdict.splits
      dest: install_verify_Abort install_unpack_Return)

lemma install_candidate_Return:
  "install_candidate E c w = (w', Return) \<Longrightarrow>
     stdout w' \<noteq> [] \<and>
     (last (stdout w') = ''Checksum verification failed'' \<or>
      last (stdout w') = ''Successfully installed Terraform version '' @ Version_String E (Version c))"
  unfolding install_candidate_def
  by (auto simp: Let_def split: option.splits if_splits dest: install_fetch_Return)

lemma install_candidate_not_no_match:
  "install_candidate E c w \<noteq>
     (println ''None of the available Terraform versions matched the constraints'' w, Return)"
proof
  assume "install_candidate E c w =
     (println ''None of the available Terraform versions matched the constraints'' w, Return)"
  from install_candidate_Return [OF this] show False by (simp add: stdout_println)
qed

lemma install_candidate_with_dir:
  assumes "IsNotExist w (install_dir E c) \<longrightarrow> os_Mkdir E (install_dir E c) = None"
  shows "install_candidate E c w = install_fetch E c (install_dir E c) (with_dir (install_dir E c) w)"
  using assms by (simp add: install_candidate_def install_dir_def with_dir_def Let_def)

lemma install_fetch_downloaded:
  assumes "URL c = Some url" and "os_Create E (archive_path E url) = None"
    and "http_Get E url = Inr resp" and "BodyErr resp = None"
  shows "install_fetch E c dir w =
     (case install_verify E c (path_Base E (URL_Path E url)) (sha256_Sum E (Body resp))
             (downloaded (archive_path E url) url (Body resp) w) of
        (w3, Die e) \<Rightarrow> (w3, Fatal e)
      | (w3, Abort) \<Rightarrow> (install_deferred (archive_path E url) w3, Return)
      | (w3, Proceed) \<Rightarrow> install_unpack E c dir (archive_path E url) w3)"
  unfolding archive_path_def downloaded_def install_fetch_def Let_def
  using assms by (simp add: archive_path_def)

lemma install_scan_skip:
  "list_all (other_record base) before \<Longrightarrow>
     install_scan base digest (before @ rest) w = install_scan base digest rest w"
  by (induction before) (simp_all add: other_record_def)

lemma install_scan_world:
  "install_scan base digest scans w = (w', v) \<Longrightarrow>
     files w' = files w \<and> dirs w' = dirs w \<and> requests w' = requests w"
  by (induction scans arbitrary: w)
     (auto simp: println_def split: option.splits error.splits if_splits)

lemma install_verify_world:
  "install_verify E c base digest w = (w', v) \<Longrightarrow>
     files w' = files w \<and> dirs w' = dirs w \<and> (\<exists>rs. requests w' = requests w @ rs)"
  unfolding install_verify_def
  by (auto simp: Let_def println_def split: option.splits sum.splits dest: install_scan_world)

lemma install_scan_verdict: "snd (install_scan base digest scans w) = snd (install_scan base digest scans w0)"
  by (induction scans arbitrary: w w0) (auto split: option.splits error.splits)

lemma install_verify_verdict:
  "snd (install_verify E c base digest w) = snd (install_verify E c base digest w0)"
  unfolding install_verify_def
  by (auto simp: Let_def split: option.splits sum.splits intro: install_scan_verdict)

lemma install_extract_ok:
  assumes "os_Create E (path_Join E [dir, path_Base E ''terraform'']) = None"
    and "Chmod E (path_Join E [dir, path_Base E ''terraform'']) = None"
  shows "list_all entry_ok archive \<Longrightarrow>
     install_extract E dir archive w =
       (case filter (\<lambda>f. Name f = ''terraform'') archive of
          [] \<Rightarrow> w
        | t # ts \<Rightarrow> w\<lparr>files := (files w)(path_Join E [dir, path_Base E ''terraform''] \<mapsto> Data (last (t # ts)))\<rparr>,
        None)"
proof (induction archive arbitrary: w)
  case Nil
  then show ?case by simp
next
  case (Cons f archive)
  then show ?case using assms
    by (auto simp: entry_ok_def split: list.splits)
qed

lemma install_unpack_ok:
  assumes "files w archivePath = Some content" and "zip_OpenReader E content = Inr archive"
    and "list_all entry_ok archive"
    and "os_Create E (path_Join E [dir, path_Base E ''terraform'']) = None"
    and "Chmod E (path_Join E [dir, path_Base E ''terraform'']) = None"
  shows "install_unpack E c dir archivePath w =
     (install_deferred archivePath
        (println (''Successfully installed Terraform version '' @ Version_String E (Version c))
           (case filter (\<lambda>f. Name f = ''terraform'') archive of
              [] \<Rightarrow> w
            | t # ts \<Rightarrow> w\<lparr>files := (files w)(path_Join E [dir, path_Base E ''terraform''] \<mapsto> Data (last (t # ts)))\<rparr>)),
      Return)"
  using assms(1,2) install_extract_ok [OF assms(4,5,3), of w]
  by (simp add: install_unpack_def)

section \<open>The steps of exec\<close>

lemma exec_scan_unparsable:
  "name \<in> set names \<Longrightarrow> NewVersion E name = Inl e \<Longrightarrow> \<exists>e'. exec_scan E names = Inl e'"
  by (induction names) (auto split: sum.splits)

lemma exec_scan_all_parsed:
  "exec_scan E names = Inr tfVersions \<Longrightarrow>
     map (\<lambda>c. Inr (Version c)) tfVersions = map (NewVersion E) names"
  by (induction names arbitrary: tfVersions) (auto split: sum.splits)

lemma exec_loop_find:
  "exec_loop E constraints args tfVersions w =
     (case find (\<lambda>c. Check constraints (Version c)) tfVersions of
        None \<Rightarrow> (w, None)
      | Some c \<Rightarrow>
          if IsNotExist w (path_Join E [tfVersionsDirPath E, Version_String E (Version c), ''terraform''])
          then (println (''Found Terraform version '' @ Version_String E (Version c)
                         @ '' but Terraform binary is missing'') w, None)
          else (case syscall_Exec E (path_Join E [tfVersionsDirPath E, Version_String E (Version c), ''terraform'']) of
                  None \<Rightarrow> (w, Some (Replaced (path_Join E [tfVersionsDirPath E, Version_String E (Version c), ''terraform''])
                                       (''terraform'' # args)))
                | Some e \<Rightarrow> (w, Some (Fatal e))))"
  by (induction tfVersions) simp_all

lemma Check_nil: "Check [] v"
  by (simp add: Check_def)

section \<open>Facts about the example values\<close>

lemma semver_less_total: "total_comparison semver_less"
  unfolding total_comparison_def by (auto simp: less_Suc_eq)

lemma demo_fields:
  "LessThan (demo required names catalog) = semver_less"
  "Version_String (demo required names catalog) = semver_String"
  "NewVersion (demo required names catalog) = semver_parse"
  "NewConstraint (demo required names catalog) = constraint_parse"
  "URL_Path (demo required names catalog) = (\<lambda>u. u)"
  "path_Base (demo required names catalog) = last_element"
  "path_Join (demo required names catalog) = join_slash"
  "http_Get (demo required names catalog) = demo_Get"
  "sha256_Sum (demo required names catalog) = (\<lambda>b. ''#'' @ b)"
  "fmt_Fscanf (demo required names catalog) = sums_scans"
  "zip_OpenReader (demo required names catalog) = demo_zip"
  "os_Mkdir (demo required names catalog) = (\<lambda>p. None)"
  "os_Create (demo required names catalog) = (\<lambda>p. None)"
  "Chmod (demo required names catalog) = (\<lambda>p. None)"
  "os_Open (demo required names catalog) = (\<lambda>p. None)"
  "Readdir (demo required names catalog) = (\<lambda>p. Inr names)"
  "syscall_Exec (demo required names catalog) = (\<lambda>p. None)"
  "os_Getwd (demo required names catalog) = Inr ''/project''"
  "config_LoadDir (demo required names catalog) = (\<lambda>d. Inr (demo_config required))"
  "flag_Parse (demo required names catalog) = (\<lambda>name args. None)"
  "get (demo required names catalog) = Inr catalog"
  "tfVersionsDirPath (demo required names catalog) = ''/v''"
  "cacheDirPath (demo required names catalog) = ''/c''"
  by (simp_all add: demo_def)

lemma demo_getConstraints:
  "getConstraints (demo required names catalog) =
     (if required = [] then Inr []
      else (case constraint_parse required of Inl e \<Rightarrow> Inl (Fatal e) | Inr constraints \<Rightarrow> Inr constraints))"
  by (simp add: getConstraints_def demo_def demo_config_def)

lemma demo_exec_scan:
  "exec_scan (demo required names catalog) [''0.13.0'', ''1.0.0''] =
     Inr [installed (0, 13, 0),
          installed (1, 0, 0)]"
  by (simp add: demo_def semver_parse_def installed_def)

lemma demo_sortDsc_installed:
  "sortDsc semver_less
     [installed (0, 13, 0),
      installed (1, 0, 0)] =
     [installed (1, 0, 0),
      installed (0, 13, 0)]"
  by (simp add: sortDsc_def sort_Slice_def installed_def)

lemma demo_paths:
  "install_dir (demo required names catalog) (candidate (0, 13, 0) u) = ''/v/0.13.0''"
  "install_dir (demo required names catalog) (candidate_sums (0, 13, 0) u sums) = ''/v/0.13.0''"
  "binary_path (demo required names catalog) (candidate (0, 13, 0) u) = ''/v/0.13.0/terraform''"
  "binary_path (demo required names catalog) (candidate_sums (0, 13, 0) u sums) = ''/v/0.13.0/terraform''"
  "archive_path (demo required names catalog) ''/t.zip'' = ''/c/t.zip''"
  "path_Base (demo required names catalog) (URL_Path (demo required names catalog) ''/t.zip'') = ''t.zip''"
  by (simp_all add: install_dir_def binary_path_def archive_path_def demo_fields candidate_def
      candidate_sums_def decimal.simps last_element_def)

lemma demo_archive:
  "zip_OpenReader (demo required names catalog) ''PK'' =
     Inr [\<lparr>Name = ''README'', OpenErr = None, Data = ''text'', DataErr = None\<rparr>,
          \<lparr>Name = ''terraform'', OpenErr = None, Data = ''new binary'', DataErr = None\<rparr>]"
  by (simp add: demo_fields demo_zip_def)

section \<open>Claim C1: the candidate that install selects\<close>

text \<open>
  Claim C1. When the catalog scraper returns the candidates \<open>cands\<close> and the project's
  constraints are \<open>constraints\<close>, \<open>install\<close> scans the candidates in descending order of
  their Versions (a permutation of \<open>cands\<close>) and runs the installation of the first
  candidate of that order whose Version satisfies the constraints. That candidate is a
  candidate of the catalog, and no satisfying candidate has a greater Version. The run is
  the "no match" outcome (the message is printed and \<open>install\<close> returns) if and only if no
  candidate satisfies the constraints.
\<close>

theorem install_selects_greatest_satisfying:
  assumes "total_comparison (LessThan E)" and "get E = Inr cands"
    and "getConstraints E = Inr constraints"
  shows "sorted_wrt (\<lambda>a b. \<not> LessThan E (Version a) (Version b)) (sortDsc (LessThan E) cands) \<and>
         mset (sortDsc (LessThan E) cands) = mset cands \<and>
         install E w =
           (case find (\<lambda>c. Check constraints (Version c)) (sortDsc (LessThan E) cands) of
              None \<Rightarrow> (println ''None of the available Terraform versions matched the constraints'' w, Return)
            | Some c \<Rightarrow> install_candidate E c w) \<and>
         (\<forall>c. find (\<lambda>c. Check constraints (Version c)) (sortDsc (LessThan E) cands) = Some c \<longrightarrow>
              c \<in> set cands \<and> Check constraints (Version c) \<and>
              (\<forall>d\<in>set cands. Check constraints (Version d) \<longrightarrow> \<not> LessThan E (Version c) (Version d))) \<and>
         (install E w = (println ''None of the available Terraform versions matched the constraints'' w, Return)
            \<longleftrightarrow> \<not> (\<exists>c\<in>set cands. Check constraints (Version c)))"
proof -
  let ?P = "\<lambda>c. Check constraints (Version c)"
  let ?sorted = "sortDsc (LessThan E) cands"
  let ?none = "(println ''None of the available Terraform versions matched the constraints'' w, Return)"
  have srt: "sorted_wrt (\<lambda>a b. \<not> LessThan E (Version a) (Version b)) ?sorted"
    using assms(1) by (rule sorted_sortDsc)
  have perm: "mset ?sorted = mset cands"
    by (simp add: sortDsc_def mset_sort_Slice)
  have run: "install E w = (case find ?P ?sorted of None \<Rightarrow> ?none | Some c \<Rightarrow> install_candidate E c w)"
    using assms(2,3) by (simp add: install_def install_loop_find)
  have best: "c \<in> set cands \<and> ?P c \<and> (\<forall>d\<in>set cands. ?P d \<longrightarrow> \<not> LessThan E (Version c) (Version d))"
    if f: "find ?P ?sorted = Some c" for c
  proof -
    from f have "c \<in> set ?sorted" and "?P c" by (auto simp: find_Some_iff)
    moreover have "\<not> LessThan E (Version c) (Version d)" if "d \<in> set cands" "?P d" for d
      using find_descending_is_greatest [OF assms(1) srt f, of d] that by (simp add: set_sortDsc)
    ultimately show ?thesis by (simp add: set_sortDsc)
  qed
  have none: "install E w = ?none \<longleftrightarrow> \<not> (\<exists>c\<in>set cands. ?P c)"
  proof (cases "find ?P ?sorted")
    case None
    then have "install E w = ?none" using run by simp
    moreover from None have "\<not> (\<exists>c\<in>set cands. ?P c)"
      by (simp add: find_None_iff set_sortDsc)
    ultimately show ?thesis by blast
  next
    case (Some c)
    then have "c \<in> set cands" "?P c" using best by blast+
    moreover have "install E w \<noteq> ?none"
      using run Some install_candidate_not_no_match [of E c w] by simp
    ultimately show ?thesis by blast
  qed
  from srt perm run best none show ?thesis by blast
qed

text \<open>The catalog 0.13.0, 1.0.0, 0.12.0 under the constraints \<open>>= 0.13.0, < 1.0.0\<close>:
  0.13.0 is installed.\<close>

theorem install_selects_greatest_satisfying_witness:
  "total_comparison (LessThan (demo ''>= 0.13.0, < 1.0.0'' [] demo_catalog)) \<and>
   get (demo ''>= 0.13.0, < 1.0.0'' [] demo_catalog) = Inr demo_catalog \<and>
   getConstraints (demo ''>= 0.13.0, < 1.0.0'' [] demo_catalog) = Inr [at_least (0, 13, 0), below (1, 0, 0)] \<and>
   install (demo ''>= 0.13.0, < 1.0.0'' [] demo_catalog) world0 =
     install_candidate (demo ''>= 0.13.0, < 1.0.0'' [] demo_catalog) (candidate (0, 13, 0) ''/t.zip'') world0 \<and>
   install (demo ''>= 0.13.0, < 1.0.0'' [] demo_catalog) world0 \<noteq>
     (println ''None of the available Terraform versions matched the constraints'' world0, Return)"
proof -
  let ?E = "demo ''>= 0.13.0, < 1.0.0'' [] demo_catalog"
  have t: "total_comparison (LessThan ?E)" by (simp add: demo_def semver_less_total)
  have g: "get ?E = Inr demo_catalog" by (simp add: demo_def)
  have c: "getConstraints ?E = Inr [at_least (0, 13, 0), below (1, 0, 0)]"
    by (simp add: demo_getConstraints constraint_parse_def)
  have f: "find (\<lambda>c. Check [at_least (0, 13, 0), below (1, 0, 0)] (Version c))
             (sortDsc (LessThan ?E) demo_catalog) = Some (candidate (0, 13, 0) ''/t.zip'')"
    by (simp add: demo_def demo_catalog_def sortDsc_def sort_Slice_def candidate_def Check_def
        at_least_def below_def)
  have m: "candidate (0, 13, 0) ''/t.zip'' \<in> set demo_catalog"
    by (simp add: demo_catalog_def)
  have k: "Check [at_least (0, 13, 0), below (1, 0, 0)] (Version (candidate (0, 13, 0) ''/t.zip''))"
    by (simp add: candidate_def Check_def at_least_def below_def)
  show ?thesis
    using install_selects_greatest_satisfying [OF t g c, of world0] t g c f m k by auto
qed

section \<open>Claim C2: the two sorting orders\<close>

text \<open>
  Claim C2, as the code has it. For a total comparison, \<open>sortAsc\<close> and \<open>sortDsc\<close> return
  the candidates of the input, in ascending and in descending order of their Versions, and
  the two sequences mirror each other: the candidate at a position of the ascending
  sequence and the candidate at that position of the reversed descending sequence have
  equal Versions. The ascending sequence is the exact reverse of the descending one
  whenever two candidates of the input with equal Versions are the same candidate.
\<close>

theorem sortAsc_sortDsc_mirror:
  assumes "total_comparison lt"
  shows "mset (sortAsc lt xs) = mset xs \<and> mset (sortDsc lt xs) = mset xs \<and>
         sorted_wrt (\<lambda>a b. \<not> lt (Version b) (Version a)) (sortAsc lt xs) \<and>
         sorted_wrt (\<lambda>a b. \<not> lt (Version a) (Version b)) (sortDsc lt xs) \<and>
         list_all2 (\<lambda>a d. same_version lt (Version a) (Version d)) (sortAsc lt xs) (rev (sortDsc lt xs)) \<and>
         (ties_identical lt xs \<longrightarrow> sortAsc lt xs = rev (sortDsc lt xs))"
proof -
  let ?lt = "\<lambda>a b. lt (Version a) (Version b)"
  have tc: "total_comparison ?lt" using assms by (rule total_comparison_on)
  have asc: "sorted_wrt (\<lambda>a b. \<not> lt (Version b) (Version a)) (sortAsc lt xs)"
    unfolding sortAsc_def using tc by (rule sorted_sort_Slice)
  have dsc: "sorted_wrt (\<lambda>a b. \<not> lt (Version a) (Version b)) (sortDsc lt xs)"
    unfolding sortDsc_def using sorted_sort_Slice [OF total_comparison_flip [OF tc], of xs] by simp
  have mir: "list_all2 (\<lambda>a d. same_version lt (Version a) (Version d)) (sortAsc lt xs) (rev (sortDsc lt xs))"
    unfolding sortAsc_def sortDsc_def same_version_def using sorts_mirror [OF tc, of xs] by simp
  have rev: "sortAsc lt xs = rev (sortDsc lt xs)"
    if t: "ties_identical lt xs"
  proof -
    have d: "\<forall>a\<in>set xs. \<forall>b\<in>set xs. same_version lt (Version a) (Version b) \<longrightarrow> a = b"
      using t by (simp add: ties_identical_def list_all_iff)
    have "list_all2 (=) (sortAsc lt xs) (rev (sortDsc lt xs))"
      using mir
    proof (rule list.rel_mono_strong)
      fix a b
      assume "a \<in> set (sortAsc lt xs)" "b \<in> set (rev (sortDsc lt xs))"
        "same_version lt (Version a) (Version b)"
      then show "a = b" using d by (simp add: sortAsc_def sortDsc_def set_sort_Slice)
    qed
    then show ?thesis by (simp add: list.rel_eq)
  qed
  show ?thesis using asc dsc mir rev by (simp add: sortAsc_def sortDsc_def mset_sort_Slice)
qed

text \<open>
  Claim C2 as stated fails on the input that consists of two different candidates with
  equal Versions: neither sort swaps them, so both return the input order and the one is
  not the reverse of the other.
\<close>

theorem sortAsc_not_reverse_of_sortDsc:
  "sortAsc semver_less [candidate (1, 0, 0) ''a'', candidate (1, 0, 0) ''b'']
     \<noteq> rev (sortDsc semver_less [candidate (1, 0, 0) ''a'', candidate (1, 0, 0) ''b''])"
  by (simp add: sortAsc_def sortDsc_def sort_Slice_def candidate_def)

text \<open>Three candidates with different Versions.\<close>

theorem sortAsc_sortDsc_mirror_witness:
  "total_comparison semver_less \<and>
   ties_identical semver_less
     [candidate (0, 13, 0) ''b'', candidate (1, 0, 0) ''c'', candidate (0, 12, 0) ''a''] \<and>
   sortAsc semver_less [candidate (0, 13, 0) ''b'', candidate (1, 0, 0) ''c'', candidate (0, 12, 0) ''a'']
     = [candidate (0, 12, 0) ''a'', candidate (0, 13, 0) ''b'', candidate (1, 0, 0) ''c''] \<and>
   sortAsc semver_less [candidate (0, 13, 0) ''b'', candidate (1, 0, 0) ''c'', candidate (0, 12, 0) ''a'']
     = rev (sortDsc semver_less [candidate (0, 13, 0) ''b'', candidate (1, 0, 0) ''c'', candidate (0, 12, 0) ''a''])"
proof -
  have d: "ties_identical semver_less
     [candidate (0, 13, 0) ''b'', candidate (1, 0, 0) ''c'', candidate (0, 12, 0) ''a'']"
    by (simp add: ties_identical_def candidate_def same_version_def)
  have a: "sortAsc semver_less [candidate (0, 13, 0) ''b'', candidate (1, 0, 0) ''c'', candidate (0, 12, 0) ''a'']
     = [candidate (0, 12, 0) ''a'', candidate (0, 13, 0) ''b'', candidate (1, 0, 0) ''c'']"
    by (simp add: sortAsc_def sort_Slice_def candidate_def)
  show ?thesis
    using sortAsc_sortDsc_mirror [OF semver_less_total,
        of "[candidate (0, 13, 0) ''b'', candidate (1, 0, 0) ''c'', candidate (0, 12, 0) ''a'']"]
      semver_less_total d a by blast
qed

section \<open>Claim C3: a digest that does not match\<close>

text \<open>
  Claim C3. The candidate has a manifest location; the records of the manifest before the
  first record for the archive's base name parse and name other files; that record holds a
  digest different from the SHA-256 digest of the downloaded bytes. Then the installation
  of the candidate prints \<open>Checksum verification failed\<close> and returns. Apart from the
  archive in the cache directory, which the deferred call removes, no file has been written
  or changed: no binary is in the install directory that was not there before.
\<close>

theorem install_checksum_mismatch_aborts:
  assumes "IsNotExist w (install_dir E c) \<longrightarrow> os_Mkdir E (install_dir E c) = None"
    and "URL c = Some url" and "os_Create E (archive_path E url) = None"
    and "http_Get E url = Inr resp" and "BodyErr resp = None"
    and "ChecksumURL c = Some checksumURL" and "http_Get E checksumURL = Inr manifest"
    and "fmt_Fscanf E manifest = before @ s # after"
    and "list_all (other_record (path_Base E (URL_Path E url))) before"
    and "scan_err s = None" and "scan_n s = 2" and "filename s = path_Base E (URL_Path E url)"
    and "checksum s \<noteq> sha256_Sum E (Body resp)"
  shows "\<exists>w'. install_candidate E c w = (w', Return) \<and>
           stdout w' = stdout w @ [''Checksum verification failed''] \<and>
           files w' = (files w)(archive_path E url := None) \<and>
           dirs w' = dirs (with_dir (install_dir E c) w) \<and>
           requests w' = requests w @ [url, checksumURL]"
proof -
  let ?w2 = "downloaded (archive_path E url) url (Body resp) (with_dir (install_dir E c) w)"
  let ?w3 = "?w2\<lparr>requests := requests ?w2 @ [checksumURL]\<rparr>"
  have scan: "install_scan (path_Base E (URL_Path E url)) (sha256_Sum E (Body resp)) (before @ s # after) ?w3
      = (println ''Checksum verification failed'' ?w3, Abort)"
    using assms(10-13) by (simp add: install_scan_skip [OF assms(9)])
  have "install_verify E c (path_Base E (URL_Path E url)) (sha256_Sum E (Body resp)) ?w2
      = (println ''Checksum verification failed'' ?w3, Abort)"
    using assms(6-8) scan by (simp add: install_verify_def Let_def)
  then have run: "install_candidate E c w =
      (install_deferred (archive_path E url) (println ''Checksum verification failed'' ?w3), Return)"
    by (simp add: install_candidate_with_dir [OF assms(1)] install_fetch_downloaded [OF assms(2-5)])
  show ?thesis
    unfolding run
    by (auto simp: install_deferred_def println_def downloaded_def with_dir_def)
qed

theorem install_checksum_mismatch_aborts_witness:
  "URL (candidate_sums (0, 13, 0) ''/t.zip'' ''/sums/mismatch'') = Some ''/t.zip'' \<and>
   ChecksumURL (candidate_sums (0, 13, 0) ''/t.zip'' ''/sums/mismatch'') = Some ''/sums/mismatch'' \<and>
   fmt_Fscanf (demo [] [] []) \<lparr>Body = ''mismatch'', BodyErr = None\<rparr> =
     [record_of ''11'' ''a.zip''] @ record_of ''22'' ''t.zip'' # [] \<and>
   checksum (record_of ''22'' ''t.zip'') \<noteq> sha256_Sum (demo [] [] []) ''PK'' \<and>
   (\<exists>w'. install_candidate (demo [] [] []) (candidate_sums (0, 13, 0) ''/t.zip'' ''/sums/mismatch'') world0
            = (w', Return) \<and>
         stdout w' = [''Checksum verification failed''] \<and>
         files w' ''/v/0.13.0/terraform'' = None \<and>
         files w' ''/c/t.zip'' = None \<and>
         requests w' = [''/t.zip'', ''/sums/mismatch''])"
proof -
  let ?E = "demo [] [] [] :: (semver, string) env"
  let ?c = "candidate_sums (0, 13, 0) ''/t.zip'' ''/sums/mismatch''"
  let ?resp = "\<lparr>Body = ''PK'', BodyErr = None\<rparr>"
  let ?manifest = "\<lparr>Body = ''mismatch'', BodyErr = None\<rparr>"
  have h1: "IsNotExist world0 (install_dir ?E ?c) \<longrightarrow> os_Mkdir ?E (install_dir ?E ?c) = None"
    by (simp add: demo_fields)
  have h2: "URL ?c = Some ''/t.zip''" by (simp add: candidate_sums_def)
  have h3: "os_Create ?E (archive_path ?E ''/t.zip'') = None" by (simp add: demo_fields)
  have h4: "http_Get ?E ''/t.zip'' = Inr ?resp" by (simp add: demo_fields demo_Get_def)
  have h5: "BodyErr ?resp = None" by simp
  have h6: "ChecksumURL ?c = Some ''/sums/mismatch''" by (simp add: candidate_sums_def)
  have h7: "http_Get ?E ''/sums/mismatch'' = Inr ?manifest" by (simp add: demo_fields demo_Get_def)
  have h8: "fmt_Fscanf ?E ?manifest = [record_of ''11'' ''a.zip''] @ record_of ''22'' ''t.zip'' # []"
    by (simp add: demo_fields sums_scans_def)
  have h9: "list_all (other_record (path_Base ?E (URL_Path ?E ''/t.zip''))) [record_of ''11'' ''a.zip'']"
    by (simp add: demo_paths other_record_def record_of_def)
  have h10: "scan_err (record_of ''22'' ''t.zip'') = None" by (simp add: record_of_def)
  have h11: "scan_n (record_of ''22'' ''t.zip'') = 2" by (simp add: record_of_def)
  have h12: "filename (record_of ''22'' ''t.zip'') = path_Base ?E (URL_Path ?E ''/t.zip'')"
    by (simp add: demo_paths record_of_def)
  have h13: "checksum (record_of ''22'' ''t.zip'') \<noteq> sha256_Sum ?E (Body ?resp)"
    by (simp add: demo_fields record_of_def)
  have h13': "checksum (record_of ''22'' ''t.zip'') \<noteq> sha256_Sum ?E ''PK''"
    using h13 by simp
  from install_checksum_mismatch_aborts [OF h1 h2 h3 h4 h5 h6 h7 h8 h9 h10 h11 h12 h13]
  obtain w' where w': "install_candidate ?E ?c world0 = (w', Return)"
    "stdout w' = stdout world0 @ [''Checksum verification failed'']"
    "files w' = (files world0)(archive_path ?E ''/t.zip'' := None)"
    "requests w' = requests world0 @ [''/t.zip'', ''/sums/mismatch'']"
    by blast
  have a: "stdout w' = [''Checksum verification failed'']" using w'(2) by (simp add: world0_def)
  have b: "files w' ''/v/0.13.0/terraform'' = None" using w'(3) by (simp add: world0_def)
  have c: "files w' ''/c/t.zip'' = None" using w'(3) by (simp add: world0_def)
  have d: "requests w' = [''/t.zip'', ''/sums/mismatch'']" using w'(4) by (simp add: world0_def)
  from w'(1) a b c d have "\<exists>w'. install_candidate ?E ?c world0 = (w', Return) \<and>
         stdout w' = [''Checksum verification failed''] \<and>
         files w' ''/v/0.13.0/terraform'' = None \<and>
         files w' ''/c/t.zip'' = None \<and>
         requests w' = [''/t.zip'', ''/sums/mismatch'']" by blast
  with h2 h6 h8 h13' show ?thesis by (intro conjI)
qed

section \<open>Claim C4: a manifest record that does not parse\<close>

text \<open>
  Claim C4 fails on the code. \<^verbatim>\<open>fmt.Fscanf\<close> reports a record that does not parse by an
  error: it returns fewer than two items only together with a non-nil error. When the
  records before such a record parse and name other files and the error is not
  \<^verbatim>\<open>io.EOF\<close>, the manifest loop ends in \<^verbatim>\<open>log.Fatal\<close> (line 388): nothing is printed,
  \<open>Bad format\<close> in particular, and the records after it are not scanned.
\<close>

theorem install_scan_malformed_record_is_fatal:
  assumes "list_all (other_record base) before" and "scan_n s < 2" and "scan_err s = Some (Error m)"
  shows "install_scan base digest (before @ s # after) w = (w, Die (Error m))"
  using assms(2,3) by (simp add: install_scan_skip [OF assms(1)])

text \<open>
  The first record of the manifest does not parse and the second is the right record for
  the archive: the installation ends in \<open>log.Fatal\<close> with nothing printed and no binary
  installed.
\<close>

theorem install_scan_malformed_record_is_fatal_witness:
  "sums_scans \<lparr>Body = ''malformed'', BodyErr = None\<rparr> =
     [] @ \<lparr>scan_n = 0, scan_err = Some (Error ''no hex data for %x string''), checksum = [], filename = []\<rparr>
        # [record_of ''#PK'' ''t.zip''] \<and>
   install_scan ''t.zip'' ''#PK'' (sums_scans \<lparr>Body = ''malformed'', BodyErr = None\<rparr>) world0
     = (world0, Die (Error ''no hex data for %x string'')) \<and>
   snd (install_candidate (demo [] [] []) (candidate_sums (0, 13, 0) ''/t.zip'' ''/sums/malformed'') world0)
     = Fatal (Error ''no hex data for %x string'') \<and>
   stdout (fst (install_candidate (demo [] [] []) (candidate_sums (0, 13, 0) ''/t.zip'' ''/sums/malformed'') world0))
     = [] \<and>
   files (fst (install_candidate (demo [] [] []) (candidate_sums (0, 13, 0) ''/t.zip'' ''/sums/malformed'') world0))
     ''/v/0.13.0/terraform'' = None"
proof -
  let ?E = "demo [] [] [] :: (semver, string) env"
  let ?c = "candidate_sums (0, 13, 0) ''/t.zip'' ''/sums/malformed''"
  let ?bad = "\<lparr>scan_n = 0, scan_err = Some (Error ''no hex data for %x string''), checksum = [], filename = []\<rparr>"
  have m: "sums_scans \<lparr>Body = ''malformed'', BodyErr = None\<rparr> = [] @ ?bad # [record_of ''#PK'' ''t.zip'']"
    by (simp add: sums_scans_def)
  have s: "install_scan base digest (sums_scans \<lparr>Body = ''malformed'', BodyErr = None\<rparr>) w
     = (w, Die (Error ''no hex data for %x string''))" for w :: "string world" and base digest
    unfolding m by (rule install_scan_malformed_record_is_fatal) simp_all
  have h1: "IsNotExist world0 (install_dir ?E ?c) \<longrightarrow> os_Mkdir ?E (install_dir ?E ?c) = None"
    by (simp add: demo_fields)
  have h2: "URL ?c = Some ''/t.zip''" by (simp add: candidate_sums_def)
  have h3: "os_Create ?E (archive_path ?E ''/t.zip'') = None" by (simp add: demo_fields)
  have h4: "http_Get ?E ''/t.zip'' = Inr \<lparr>Body = ''PK'', BodyErr = None\<rparr>" by (simp add: demo_fields demo_Get_def)
  have h5: "BodyErr \<lparr>Body = ''PK'', BodyErr = None\<rparr> = None" by simp
  have v: "install_verify ?E ?c base digest w =
      (w\<lparr>requests := requests w @ [''/sums/malformed'']\<rparr>, Die (Error ''no hex data for %x string''))"
    for w :: "string world" and base digest
    by (simp add: install_verify_def candidate_sums_def demo_fields demo_Get_def Let_def s)
  have run: "install_candidate ?E ?c world0 =
     ((downloaded ''/c/t.zip'' ''/t.zip'' ''PK'' (with_dir ''/v/0.13.0'' world0))
        \<lparr>requests := requests (downloaded ''/c/t.zip'' ''/t.zip'' ''PK'' (with_dir ''/v/0.13.0'' world0)) @ [''/sums/malformed'']\<rparr>,
      Fatal (Error ''no hex data for %x string''))"
    by (simp add: install_candidate_with_dir [OF h1] install_fetch_downloaded [OF h2 h3 h4 h5]
        demo_paths demo_fields v)
  have r: "snd (install_candidate ?E ?c world0) = Fatal (Error ''no hex data for %x string'')"
    "stdout (fst (install_candidate ?E ?c world0)) = []"
    "files (fst (install_candidate ?E ?c world0)) ''/v/0.13.0/terraform'' = None"
    unfolding run by (simp_all add: downloaded_def with_dir_def world0_def IsNotExist_def)
  from m s [of "''t.zip''" "''#PK''" world0] r show ?thesis by (intro conjI)
qed

text \<open>
  While every call of \<^verbatim>\<open>fmt.Fscanf\<close> that returns other than two items also returns an
  error, the loop prints at most one line, and never \<open>Bad format\<close>: the branch of line 402
  is not reached.
\<close>

lemma install_scan_bad_format_unreachable:
  "list_all (\<lambda>s. scan_n s \<noteq> 2 \<longrightarrow> scan_err s \<noteq> None) scans \<Longrightarrow>
     install_scan base digest scans w = (w', v) \<Longrightarrow>
     stdout w' = stdout w \<or> stdout w' = stdout w @ [''No checksum found''] \<or>
     stdout w' = stdout w @ [''Checksum verification failed'']"
  by (induction scans arbitrary: w)
     (auto simp: println_def split: option.splits error.splits if_splits)

section \<open>Claim C5: a selected version whose binary is missing\<close>

text \<open>
  Claim C5 as stated fails. The install root holds 0.13.0 with its binary and 1.0.0 without,
  and the constraint is \<open>>= 0.13.0\<close>: \<open>exec\<close> reports the missing binary of 1.0.0, leaves
  the loop, prints that no installed version matched and returns. The binary of 0.13.0 is
  not executed.
\<close>

theorem exec_does_not_fall_back:
  "snd (exec (demo ''>= 0.13.0'' [''0.13.0'', ''1.0.0''] []) [''plan''] world1) = Return \<and>
   snd (exec (demo ''>= 0.13.0'' [''0.13.0'', ''1.0.0''] []) [''plan''] world1)
     \<noteq> Replaced ''/v/0.13.0/terraform'' [''terraform'', ''plan''] \<and>
   stdout (fst (exec (demo ''>= 0.13.0'' [''0.13.0'', ''1.0.0''] []) [''plan''] world1)) =
     [''Found Terraform version 1.0.0 but Terraform binary is missing'',
      ''None of the installed Terraform versions matched the constraints'']"
proof -
  let ?E = "demo ''>= 0.13.0'' [''0.13.0'', ''1.0.0''] []"
  have "exec ?E [''plan''] world1 =
     (println ''None of the installed Terraform versions matched the constraints''
        (println ''Found Terraform version 1.0.0 but Terraform binary is missing'' world1), Return)"
    by (simp add: exec_def demo_getConstraints demo_fields semver_parse_def constraint_parse_def
        sortDsc_def sort_Slice_def Check_def at_least_def IsNotExist_def world1_def decimal.simps)
  then show ?thesis by (simp add: println_def world1_def)
qed

text \<open>
  Claim C5, as the code has it. When the first installed version of the descending order
  that satisfies the constraints has no binary, \<open>exec\<close> reports the missing binary, prints
  that none of the installed versions matched, and returns; no later version is tried.
\<close>

theorem exec_missing_binary_stops:
  assumes "os_Open E (tfVersionsDirPath E) = None"
    and "Readdir E (tfVersionsDirPath E) = Inr names"
    and "exec_scan E names = Inr tfVersions"
    and "getConstraints E = Inr constraints"
    and "find (\<lambda>c. Check constraints (Version c)) (sortDsc (LessThan E) tfVersions) = Some c"
    and "IsNotExist w (path_Join E [tfVersionsDirPath E, Version_String E (Version c), ''terraform''])"
  shows "exec E args w =
     (println ''None of the installed Terraform versions matched the constraints''
        (println (''Found Terraform version '' @ Version_String E (Version c)
                  @ '' but Terraform binary is missing'') w), Return)"
  using assms by (simp add: exec_def exec_loop_find)

theorem exec_missing_binary_stops_witness:
  "os_Open (demo ''>= 0.13.0'' [''0.13.0'', ''1.0.0''] []) (tfVersionsDirPath (demo ''>= 0.13.0'' [''0.13.0'', ''1.0.0''] [])) = None \<and>
   find (\<lambda>c. Check [at_least (0, 13, 0)] (Version c))
     (sortDsc (LessThan (demo ''>= 0.13.0'' [''0.13.0'', ''1.0.0''] []))
        [installed (0, 13, 0),
         installed (1, 0, 0)])
     = Some (installed (1, 0, 0)) \<and>
   IsNotExist world1 ''/v/1.0.0/terraform'' \<and>
   \<not> IsNotExist world1 ''/v/0.13.0/terraform'' \<and>
   exec (demo ''>= 0.13.0'' [''0.13.0'', ''1.0.0''] []) [''plan''] world1 =
     (println ''None of the installed Terraform versions matched the constraints''
        (println ''Found Terraform version 1.0.0 but Terraform binary is missing'' world1), Return)"
proof -
  let ?E = "demo ''>= 0.13.0'' [''0.13.0'', ''1.0.0''] []"
  let ?c = "installed (1, 0, 0)"
  have a: "os_Open ?E (tfVersionsDirPath ?E) = None" by (simp add: demo_def)
  have b: "Readdir ?E (tfVersionsDirPath ?E) = Inr [''0.13.0'', ''1.0.0'']" by (simp add: demo_def)
  have c: "getConstraints ?E = Inr [at_least (0, 13, 0)]"
    by (simp add: demo_getConstraints constraint_parse_def)
  have l: "LessThan ?E = semver_less" by (simp add: demo_def)
  have f: "find (\<lambda>c. Check [at_least (0, 13, 0)] (Version c))
     (sortDsc (LessThan ?E)
        [installed (0, 13, 0),
         installed (1, 0, 0)]) = Some ?c"
    unfolding l demo_sortDsc_installed by (simp add: Check_def at_least_def installed_def)
  have p: "path_Join ?E [tfVersionsDirPath ?E, Version_String ?E (Version ?c), ''terraform''] = ''/v/1.0.0/terraform''"
    by (simp add: demo_def decimal.simps installed_def)
  have s: "Version_String ?E (Version ?c) = ''1.0.0''"
    by (simp add: demo_def decimal.simps installed_def)
  have m: "IsNotExist world1 ''/v/1.0.0/terraform''" by (simp add: IsNotExist_def world1_def)
  have n: "\<not> IsNotExist world1 ''/v/0.13.0/terraform''" by (simp add: IsNotExist_def world1_def)
  have m': "IsNotExist world1 (path_Join ?E [tfVersionsDirPath ?E, Version_String ?E (Version ?c), ''terraform''])"
    unfolding p by (rule m)
  have "exec ?E [''plan''] world1 =
     (println ''None of the installed Terraform versions matched the constraints''
        (println (''Found Terraform version '' @ Version_String ?E (Version ?c)
                  @ '' but Terraform binary is missing'') world1), Return)"
    by (rule exec_missing_binary_stops [OF a b demo_exec_scan c f m'])
  then have "exec ?E [''plan''] world1 =
     (println ''None of the installed Terraform versions matched the constraints''
        (println ''Found Terraform version 1.0.0 but Terraform binary is missing'' world1), Return)"
    unfolding s by simp
  with a f m n show ?thesis by (intro conjI)
qed

section \<open>Claim C6: no checksum for the archive\<close>

text \<open>
  Claim C6. The candidate has no manifest location, or every record of its manifest parses
  and names another file. Then the installation prints \<open>No checksum found\<close> after the
  download and goes on with the opening of the archive and the extraction (lines 408-462),
  in a world that holds the downloaded archive. When the archive opens and its binary
  entries can be read and written, the installation returns after the success message and
  the binary of the archive is in the install directory.
\<close>

theorem install_without_checksum_proceeds:
  assumes "IsNotExist w (install_dir E c) \<longrightarrow> os_Mkdir E (install_dir E c) = None"
    and "URL c = Some url" and "os_Create E (archive_path E url) = None"
    and "http_Get E url = Inr resp" and "BodyErr resp = None"
    and "ChecksumURL c = None \<or>
         (\<exists>checksumURL manifest. ChecksumURL c = Some checksumURL \<and>
            http_Get E checksumURL = Inr manifest \<and>
            list_all (other_record (path_Base E (URL_Path E url))) (fmt_Fscanf E manifest))"
  shows "\<exists>w2. install_candidate E c w =
             install_unpack E c (install_dir E c) (archive_path E url) (println ''No checksum found'' w2) \<and>
           stdout w2 = stdout w \<and>
           files w2 = (files w)(archive_path E url \<mapsto> Body resp) \<and>
           dirs w2 = dirs (with_dir (install_dir E c) w) \<and>
           (\<forall>archive.
              zip_OpenReader E (Body resp) = Inr archive \<and> list_all entry_ok archive \<and>
              filter (\<lambda>f. Name f = ''terraform'') archive \<noteq> [] \<and>
              os_Create E (binary_path E c) = None \<and> Chmod E (binary_path E c) = None \<and>
              archive_path E url \<noteq> binary_path E c \<longrightarrow>
              (\<exists>w'. install_candidate E c w = (w', Return) \<and>
                 stdout w' = stdout w @ [''No checksum found'',
                   ''Successfully installed Terraform version '' @ Version_String E (Version c)] \<and>
                 files w' (binary_path E c) =
                   Some (Data (last (filter (\<lambda>f. Name f = ''terraform'') archive)))))"
proof -
  let ?base = "path_Base E (URL_Path E url)"
  let ?w1 = "downloaded (archive_path E url) url (Body resp) (with_dir (install_dir E c) w)"
  have "\<exists>w2. install_verify E c ?base (sha256_Sum E (Body resp)) ?w1 = (println ''No checksum found'' w2, Proceed) \<and>
          stdout w2 = stdout ?w1 \<and> files w2 = files ?w1 \<and> dirs w2 = dirs ?w1"
    using assms(6)
  proof
    assume "ChecksumURL c = None"
    then have "install_verify E c ?base (sha256_Sum E (Body resp)) ?w1 = (println ''No checksum found'' ?w1, Proceed)"
      by (simp add: install_verify_def)
    then show ?thesis by blast
  next
    assume "\<exists>checksumURL manifest. ChecksumURL c = Some checksumURL \<and>
            http_Get E checksumURL = Inr manifest \<and>
            list_all (other_record ?base) (fmt_Fscanf E manifest)"
    then obtain checksumURL manifest where m: "ChecksumURL c = Some checksumURL"
      "http_Get E checksumURL = Inr manifest" "list_all (other_record ?base) (fmt_Fscanf E manifest)"
      by blast
    let ?w0 = "?w1\<lparr>requests := requests ?w1 @ [checksumURL]\<rparr>"
    have "install_scan ?base (sha256_Sum E (Body resp)) (fmt_Fscanf E manifest @ []) ?w0
            = (println ''No checksum found'' ?w0, Proceed)"
      by (simp only: install_scan_skip [OF m(3)] install_scan.simps)
    then have "install_verify E c ?base (sha256_Sum E (Body resp)) ?w1 =
        (println ''No checksum found'' (?w1\<lparr>requests := requests ?w1 @ [checksumURL]\<rparr>), Proceed)"
      using m(1,2) by (simp add: install_verify_def Let_def)
    moreover have "stdout (?w1\<lparr>requests := requests ?w1 @ [checksumURL]\<rparr>) = stdout ?w1"
      "files (?w1\<lparr>requests := requests ?w1 @ [checksumURL]\<rparr>) = files ?w1"
      "dirs (?w1\<lparr>requests := requests ?w1 @ [checksumURL]\<rparr>) = dirs ?w1"
      by simp_all
    ultimately show ?thesis by blast
  qed
  then obtain w2 where v: "install_verify E c ?base (sha256_Sum E (Body resp)) ?w1 = (println ''No checksum found'' w2, Proceed)"
    and w2: "stdout w2 = stdout ?w1" "files w2 = files ?w1" "dirs w2 = dirs ?w1"
    by blast
  have run: "install_candidate E c w =
      install_unpack E c (install_dir E c) (archive_path E url) (println ''No checksum found'' w2)"
    using v by (simp add: install_candidate_with_dir [OF assms(1)] install_fetch_downloaded [OF assms(2-5)])
  have s: "stdout w2 = stdout w" using w2(1) by (simp add: downloaded_def with_dir_def)
  have f: "files w2 = (files w)(archive_path E url \<mapsto> Body resp)"
    using w2(2) by (simp add: downloaded_def with_dir_def)
  have d: "dirs w2 = dirs (with_dir (install_dir E c) w)"
    using w2(3) by (simp add: downloaded_def)
  have ok: "\<exists>w'. install_candidate E c w = (w', Return) \<and>
                 stdout w' = stdout w @ [''No checksum found'',
                   ''Successfully installed Terraform version '' @ Version_String E (Version c)] \<and>
                 files w' (binary_path E c) =
                   Some (Data (last (filter (\<lambda>f. Name f = ''terraform'') archive)))"
    if a: "zip_OpenReader E (Body resp) = Inr archive" "list_all entry_ok archive"
       "filter (\<lambda>f. Name f = ''terraform'') archive \<noteq> []"
       "os_Create E (binary_path E c) = None" "Chmod E (binary_path E c) = None"
       "archive_path E url \<noteq> binary_path E c" for archive
  proof -
    have fa: "files (println ''No checksum found'' w2) (archive_path E url) = Some (Body resp)"
      using f by (simp add: println_def)
    note u = install_unpack_ok [OF fa a(1,2) a(4,5) [unfolded binary_path_def], of c]
    from a(3) obtain t ts where ts: "filter (\<lambda>f. Name f = ''terraform'') archive = t # ts"
      by (cases "filter (\<lambda>f. Name f = ''terraform'') archive") auto
    show ?thesis
      unfolding run u ts using a(6) s f
      by (simp add: install_deferred_def println_def binary_path_def)
  qed
  from run s f d ok show ?thesis by blast
qed

theorem install_without_checksum_proceeds_witness:
  "ChecksumURL (candidate (0, 13, 0) ''/t.zip'') = None \<and>
   (\<exists>w'. install_candidate (demo [] [] []) (candidate (0, 13, 0) ''/t.zip'') world0 = (w', Return) \<and>
         stdout w' = [''No checksum found'', ''Successfully installed Terraform version 0.13.0''] \<and>
         files w' ''/v/0.13.0/terraform'' = Some ''new binary'') \<and>
   ChecksumURL (candidate_sums (0, 13, 0) ''/t.zip'' ''/sums/other'') = Some ''/sums/other'' \<and>
   fmt_Fscanf (demo [] [] []) \<lparr>Body = ''other'', BodyErr = None\<rparr> = [record_of ''11'' ''a.zip''] \<and>
   (\<exists>w'. install_candidate (demo [] [] []) (candidate_sums (0, 13, 0) ''/t.zip'' ''/sums/other'') world0
            = (w', Return) \<and>
         stdout w' = [''No checksum found'', ''Successfully installed Terraform version 0.13.0''] \<and>
         files w' ''/v/0.13.0/terraform'' = Some ''new binary'')"
proof -
  let ?E = "demo [] [] [] :: (semver, string) env"
  let ?c = "candidate (0, 13, 0) ''/t.zip''"
  let ?d = "candidate_sums (0, 13, 0) ''/t.zip'' ''/sums/other''"
  let ?resp = "\<lparr>Body = ''PK'', BodyErr = None\<rparr>"
  let ?manifest = "\<lparr>Body = ''other'', BodyErr = None\<rparr>"
  let ?archive = "[\<lparr>Name = ''README'', OpenErr = None, Data = ''text'', DataErr = None\<rparr>,
          \<lparr>Name = ''terraform'', OpenErr = None, Data = ''new binary'', DataErr = None\<rparr>]"
  have h3: "os_Create ?E (archive_path ?E ''/t.zip'') = None" by (simp add: demo_fields)
  have h4: "http_Get ?E ''/t.zip'' = Inr ?resp" by (simp add: demo_fields demo_Get_def)
  have h5: "BodyErr ?resp = None" by simp
  have z: "zip_OpenReader ?E (Body ?resp) = Inr ?archive" by (simp add: demo_archive)
  have za: "list_all entry_ok ?archive" by (simp add: entry_ok_def)
  have zf: "filter (\<lambda>f. Name f = ''terraform'') ?archive \<noteq> []" by simp
  have zl: "Data (last (filter (\<lambda>f. Name f = ''terraform'') ?archive)) = ''new binary''" by simp
  have vs: "Version_String ?E (Version ?c) = ''0.13.0''" "Version_String ?E (Version ?d) = ''0.13.0''"
    by (simp_all add: demo_fields candidate_def candidate_sums_def decimal.simps)
  \<comment> \<open>the candidate without a manifest location\<close>
  have c1: "IsNotExist world0 (install_dir ?E ?c) \<longrightarrow> os_Mkdir ?E (install_dir ?E ?c) = None"
    by (simp add: demo_fields)
  have c2: "URL ?c = Some ''/t.zip''" by (simp add: candidate_def)
  have c6: "ChecksumURL ?c = None" by (simp add: candidate_def)
  have c6': "ChecksumURL ?c = None \<or>
         (\<exists>checksumURL manifest. ChecksumURL ?c = Some checksumURL \<and>
            http_Get ?E checksumURL = Inr manifest \<and>
            list_all (other_record (path_Base ?E (URL_Path ?E ''/t.zip''))) (fmt_Fscanf ?E manifest))"
    using c6 by blast
  have cb: "os_Create ?E (binary_path ?E ?c) = None" "Chmod ?E (binary_path ?E ?c) = None"
    "archive_path ?E ''/t.zip'' \<noteq> binary_path ?E ?c"
    by (simp_all add: demo_fields demo_paths)
  from install_without_checksum_proceeds [OF c1 c2 h3 h4 h5 c6', of ]
  have "\<exists>w'. install_candidate ?E ?c world0 = (w', Return) \<and>
                 stdout w' = stdout world0 @ [''No checksum found'',
                   ''Successfully installed Terraform version '' @ Version_String ?E (Version ?c)] \<and>
                 files w' (binary_path ?E ?c) =
                   Some (Data (last (filter (\<lambda>f. Name f = ''terraform'') ?archive)))"
    using z za zf cb by blast
  then have r1: "\<exists>w'. install_candidate ?E ?c world0 = (w', Return) \<and>
         stdout w' = [''No checksum found'', ''Successfully installed Terraform version 0.13.0''] \<and>
         files w' ''/v/0.13.0/terraform'' = Some ''new binary''"
    unfolding vs zl demo_paths by (simp add: world0_def)
  \<comment> \<open>the candidate whose manifest has no record for the archive\<close>
  have d1: "IsNotExist world0 (install_dir ?E ?d) \<longrightarrow> os_Mkdir ?E (install_dir ?E ?d) = None"
    by (simp add: demo_fields)
  have d2: "URL ?d = Some ''/t.zip''" by (simp add: candidate_sums_def)
  have d6: "ChecksumURL ?d = Some ''/sums/other''" by (simp add: candidate_sums_def)
  have d7: "http_Get ?E ''/sums/other'' = Inr ?manifest" by (simp add: demo_fields demo_Get_def)
  have d8: "fmt_Fscanf ?E ?manifest = [record_of ''11'' ''a.zip'']" by (simp add: demo_fields sums_scans_def)
  have d9: "list_all (other_record (path_Base ?E (URL_Path ?E ''/t.zip''))) (fmt_Fscanf ?E ?manifest)"
    unfolding d8 by (simp add: demo_paths other_record_def record_of_def)
  have d6': "ChecksumURL ?d = None \<or>
         (\<exists>checksumURL manifest. ChecksumURL ?d = Some checksumURL \<and>
            http_Get ?E checksumURL = Inr manifest \<and>
            list_all (other_record (path_Base ?E (URL_Path ?E ''/t.zip''))) (fmt_Fscanf ?E manifest))"
    using d6 d7 d9 by blast
  have db: "os_Create ?E (binary_path ?E ?d) = None" "Chmod ?E (binary_path ?E ?d) = None"
    "archive_path ?E ''/t.zip'' \<noteq> binary_path ?E ?d"
    by (simp_all add: demo_fields demo_paths)
  from install_without_checksum_proceeds [OF d1 d2 h3 h4 h5 d6']
  have "\<exists>w'. install_candidate ?E ?d world0 = (w', Return) \<and>
                 stdout w' = stdout world0 @ [''No checksum found'',
                   ''Successfully installed Terraform version '' @ Version_String ?E (Version ?d)] \<and>
                 files w' (binary_path ?E ?d) =
                   Some (Data (last (filter (\<lambda>f. Name f = ''terraform'') ?archive)))"
    using z za zf db by blast
  then have r2: "\<exists>w'. install_candidate ?E ?d world0 = (w', Return) \<and>
         stdout w' = [''No checksum found'', ''Successfully installed Terraform version 0.13.0''] \<and>
         files w' ''/v/0.13.0/terraform'' = Some ''new binary''"
    unfolding vs zl demo_paths by (simp add: world0_def)
  from c6 r1 d6 d8 r2 show ?thesis by (intro conjI)
qed

section \<open>Claim C7: entries of the install root that are not versions\<close>

text \<open>
  Claim C7. When the install root can be listed, an entry whose name does not parse as a
  Version makes the scan fail, and \<open>exec\<close> ends in \<open>log.Fatal\<close> with the world unchanged
  (nothing printed, nothing executed). The scan returns a list only when every entry has
  been parsed, one installed version for each entry in the order of the entries: no entry is
  skipped.
\<close>

theorem exec_unparsable_entry_is_fatal:
  assumes "os_Open E (tfVersionsDirPath E) = None"
    and "Readdir E (tfVersionsDirPath E) = Inr names"
  shows "((\<exists>name\<in>set names. \<exists>e. NewVersion E name = Inl e) \<longrightarrow>
            (\<exists>e'. exec_scan E names = Inl e' \<and> exec E args w = (w, Fatal e'))) \<and>
         (\<forall>tfVersions. exec_scan E names = Inr tfVersions \<longrightarrow>
            map (\<lambda>c. Inr (Version c)) tfVersions = map (NewVersion E) names)"
proof -
  have "\<exists>e'. exec_scan E names = Inl e' \<and> exec E args w = (w, Fatal e')"
    if "name \<in> set names" "NewVersion E name = Inl e" for name e
  proof -
    from exec_scan_unparsable [OF that] obtain e' where "exec_scan E names = Inl e'" ..
    with assms show ?thesis by (simp add: exec_def)
  qed
  then show ?thesis using exec_scan_all_parsed by blast
qed

theorem exec_unparsable_entry_is_fatal_witness:
  "os_Open (demo ''>= 0.13.0'' [''0.13.0'', ''not-a-version''] []) (tfVersionsDirPath (demo ''>= 0.13.0'' [''0.13.0'', ''not-a-version''] [])) = None \<and>
   Readdir (demo ''>= 0.13.0'' [''0.13.0'', ''not-a-version''] []) (tfVersionsDirPath (demo ''>= 0.13.0'' [''0.13.0'', ''not-a-version''] []))
     = Inr [''0.13.0'', ''not-a-version''] \<and>
   NewVersion (demo ''>= 0.13.0'' [''0.13.0'', ''not-a-version''] []) ''not-a-version''
     = Inl (Error ''Malformed version: not-a-version'') \<and>
   exec (demo ''>= 0.13.0'' [''0.13.0'', ''not-a-version''] []) [''plan''] world1
     = (world1, Fatal (Error ''Malformed version: not-a-version''))"
proof -
  let ?E = "demo ''>= 0.13.0'' [''0.13.0'', ''not-a-version''] []"
  have a: "os_Open ?E (tfVersionsDirPath ?E) = None" by (simp add: demo_def)
  have b: "Readdir ?E (tfVersionsDirPath ?E) = Inr [''0.13.0'', ''not-a-version'']" by (simp add: demo_def)
  have c: "NewVersion ?E ''not-a-version'' = Inl (Error ''Malformed version: not-a-version'')"
    by (simp add: demo_def semver_parse_def)
  have d: "exec_scan ?E [''0.13.0'', ''not-a-version''] = Inl (Error ''Malformed version: not-a-version'')"
    by (simp add: demo_def semver_parse_def)
  show ?thesis
    using exec_unparsable_entry_is_fatal [OF a b, of "[''plan'']" world1] a b c d by auto
qed

section \<open>Claim C8: the absent constraint\<close>

text \<open>
  Claim C8 fails on the code for a configuration that declares no required version because
  it has no \<open>terraform\<close> block: line 293 reads the required version through the nil
  pointer, \<open>getConstraints\<close> panics, and so do \<open>install\<close> and \<open>exec\<close>, with the world
  unchanged. No constraint set is returned and no version is accepted.
\<close>

theorem getConstraints_without_terraform_block_panics:
  assumes "os_Getwd E = Inr currentDir" and "config_LoadDir E currentDir = Inr tfConfig"
    and "Terraform tfConfig = None"
  shows "getConstraints E = Inl (Panic ''nil pointer dereference'') \<and>
    (\<forall>cands w. get E = Inr cands \<longrightarrow> install E w = (w, Panic ''nil pointer dereference'')) \<and>
    (\<forall>names tfVersions args w.
       os_Open E (tfVersionsDirPath E) = None \<and> Readdir E (tfVersionsDirPath E) = Inr names \<and>
       exec_scan E names = Inr tfVersions \<longrightarrow>
       exec E args w = (w, Panic ''nil pointer dereference''))"
proof -
  have g: "getConstraints E = Inl (Panic ''nil pointer dereference'')"
    using assms by (simp add: getConstraints_def)
  then show ?thesis by (simp add: install_def exec_def)
qed

text \<open>
  The project has no \<open>terraform\<close> block; the catalog is 0.13.0, 1.0.0, 0.12.0 and the
  versions 0.13.0 and 1.0.0 are installed.
\<close>

theorem getConstraints_without_terraform_block_panics_witness:
  "os_Getwd (demo_bare [''0.13.0'', ''1.0.0''] demo_catalog) = Inr ''/project'' \<and>
   config_LoadDir (demo_bare [''0.13.0'', ''1.0.0''] demo_catalog) ''/project'' = Inr \<lparr>Terraform = None\<rparr> \<and>
   getConstraints (demo_bare [''0.13.0'', ''1.0.0''] demo_catalog) = Inl (Panic ''nil pointer dereference'') \<and>
   install (demo_bare [''0.13.0'', ''1.0.0''] demo_catalog) world0 = (world0, Panic ''nil pointer dereference'') \<and>
   exec (demo_bare [''0.13.0'', ''1.0.0''] demo_catalog) [''plan''] world1 = (world1, Panic ''nil pointer dereference'') \<and>
   exit_status (snd (exec (demo_bare [''0.13.0'', ''1.0.0''] demo_catalog) [''plan''] world1)) = Some 2"
proof -
  let ?E = "demo_bare [''0.13.0'', ''1.0.0''] demo_catalog"
  have a: "os_Getwd ?E = Inr ''/project''" by (simp add: demo_bare_def demo_def)
  have b: "config_LoadDir ?E ''/project'' = Inr \<lparr>Terraform = None\<rparr>" by (simp add: demo_bare_def demo_def)
  have c: "Terraform \<lparr>Terraform = None\<rparr> = None" by simp
  have g: "get ?E = Inr demo_catalog" by (simp add: demo_bare_def demo_def)
  have o: "os_Open ?E (tfVersionsDirPath ?E) = None \<and>
      Readdir ?E (tfVersionsDirPath ?E) = Inr [''0.13.0'', ''1.0.0''] \<and>
      exec_scan ?E [''0.13.0'', ''1.0.0''] = Inr [installed (0, 13, 0), installed (1, 0, 0)]"
    by (simp add: demo_bare_def demo_def semver_parse_def installed_def)
  note T = getConstraints_without_terraform_block_panics [OF a b c]
  have i: "install ?E world0 = (world0, Panic ''nil pointer dereference'')"
    using T [THEN conjunct2, THEN conjunct1, rule_format, OF g, of world0] .
  have x: "exec ?E [''plan''] world1 = (world1, Panic ''nil pointer dereference'')"
    using T [THEN conjunct2, THEN conjunct2, rule_format, OF o, of "[''plan'']" world1] .
  have s: "exit_status (snd (exec ?E [''plan''] world1)) = Some 2" unfolding x by simp
  from a b T [THEN conjunct1] i x s show ?thesis by (intro conjI)
qed

text \<open>
  The part of claim C8 that holds: when the configuration has a \<open>terraform\<close> block with
  the empty required-version string, \<open>getConstraints\<close> returns the nil constraint set;
  \<open>Check\<close> of the nil set accepts every Version; \<open>install\<close> then takes the first candidate
  of the descending order, and \<open>exec\<close> takes the first installed version of the descending
  order.
\<close>

theorem absent_constraint_accepts_every_version:
  assumes "os_Getwd E = Inr currentDir" and "config_LoadDir E currentDir = Inr tfConfig"
    and "Terraform tfConfig = Some terraform" and "RequiredVersion terraform = []"
  shows "getConstraints E = Inr [] \<and> (\<forall>v. Check [] v) \<and>
    (\<forall>cands w. get E = Inr cands \<longrightarrow>
       install E w =
         (case sortDsc (LessThan E) cands of
            [] \<Rightarrow> (println ''None of the available Terraform versions matched the constraints'' w, Return)
          | c # rest \<Rightarrow> install_candidate E c w)) \<and>
    (\<forall>names tfVersions args w.
       os_Open E (tfVersionsDirPath E) = None \<and> Readdir E (tfVersionsDirPath E) = Inr names \<and>
       exec_scan E names = Inr tfVersions \<longrightarrow>
       exec E args w =
         (case sortDsc (LessThan E) tfVersions of
            [] \<Rightarrow> (println ''None of the installed Terraform versions matched the constraints'' w, Return)
          | c # rest \<Rightarrow>
              if IsNotExist w (path_Join E [tfVersionsDirPath E, Version_String E (Version c), ''terraform''])
              then (println ''None of the installed Terraform versions matched the constraints''
                      (println (''Found Terraform version '' @ Version_String E (Version c)
                                @ '' but Terraform binary is missing'') w), Return)
              else (case syscall_Exec E (path_Join E [tfVersionsDirPath E, Version_String E (Version c), ''terraform'']) of
                      None \<Rightarrow> (w, Replaced (path_Join E [tfVersionsDirPath E, Version_String E (Version c), ''terraform''])
                                    (''terraform'' # args))
                    | Some e \<Rightarrow> (w, Fatal e))))"
proof -
  have g: "getConstraints E = Inr []"
    using assms by (simp add: getConstraints_def)
  have i: "install E w =
         (case sortDsc (LessThan E) cands of
            [] \<Rightarrow> (println ''None of the available Terraform versions matched the constraints'' w, Return)
          | c # rest \<Rightarrow> install_candidate E c w)" if "get E = Inr cands" for cands w
    using that g by (simp add: install_def Check_nil split: list.splits)
  have x: "exec E args w =
         (case sortDsc (LessThan E) tfVersions of
            [] \<Rightarrow> (println ''None of the installed Terraform versions matched the constraints'' w, Return)
          | c # rest \<Rightarrow>
              if IsNotExist w (path_Join E [tfVersionsDirPath E, Version_String E (Version c), ''terraform''])
              then (println ''None of the installed Terraform versions matched the constraints''
                      (println (''Found Terraform version '' @ Version_String E (Version c)
                                @ '' but Terraform binary is missing'') w), Return)
              else (case syscall_Exec E (path_Join E [tfVersionsDirPath E, Version_String E (Version c), ''terraform'']) of
                      None \<Rightarrow> (w, Replaced (path_Join E [tfVersionsDirPath E, Version_String E (Version c), ''terraform''])
                                    (''terraform'' # args))
                    | Some e \<Rightarrow> (w, Fatal e)))"
    if "os_Open E (tfVersionsDirPath E) = None" "Readdir E (tfVersionsDirPath E) = Inr names"
       "exec_scan E names = Inr tfVersions" for names tfVersions args w
    using that g by (simp add: exec_def Check_nil split: list.splits option.splits)
  from g i x show ?thesis by (simp add: Check_nil)
qed

text \<open>
  No required version, the catalog 0.13.0, 1.0.0, 0.12.0 and the installed versions 0.13.0
  and 1.0.0, both with their binaries: \<open>install\<close> installs 1.0.0 and \<open>exec\<close> executes 1.0.0.
\<close>

theorem absent_constraint_accepts_every_version_witness:
  "os_Getwd (demo [] [''0.13.0'', ''1.0.0''] demo_catalog) = Inr ''/project'' \<and>
   config_LoadDir (demo [] [''0.13.0'', ''1.0.0''] demo_catalog) ''/project'' = Inr (demo_config []) \<and>
   Terraform (demo_config []) = Some \<lparr>RequiredVersion = []\<rparr> \<and>
   getConstraints (demo [] [''0.13.0'', ''1.0.0''] demo_catalog) = Inr [] \<and>
   Check [] (1 :: nat, 0 :: nat, 0 :: nat) \<and>
   install (demo [] [''0.13.0'', ''1.0.0''] demo_catalog) world0 =
     install_candidate (demo [] [''0.13.0'', ''1.0.0''] demo_catalog) (candidate (1, 0, 0) ''/u.zip'') world0 \<and>
   exec (demo [] [''0.13.0'', ''1.0.0''] demo_catalog) [''plan'']
       (world1\<lparr>files := (files world1)(''/v/1.0.0/terraform'' \<mapsto> ''binary'')\<rparr>) =
     (world1\<lparr>files := (files world1)(''/v/1.0.0/terraform'' \<mapsto> ''binary'')\<rparr>,
      Replaced ''/v/1.0.0/terraform'' [''terraform'', ''plan''])"
proof -
  let ?E = "demo [] [''0.13.0'', ''1.0.0''] demo_catalog"
  let ?w = "world1\<lparr>files := (files world1)(''/v/1.0.0/terraform'' \<mapsto> ''binary'')\<rparr>"
  have a: "os_Getwd ?E = Inr ''/project''" by (simp add: demo_def)
  have b: "config_LoadDir ?E ''/project'' = Inr (demo_config [])" by (simp add: demo_def)
  have c: "Terraform (demo_config []) = Some \<lparr>RequiredVersion = []\<rparr>" by (simp add: demo_config_def)
  have c': "RequiredVersion \<lparr>RequiredVersion = []\<rparr> = []" by simp
  have g: "get ?E = Inr demo_catalog" by (simp add: demo_def)
  have s: "sortDsc (LessThan ?E) demo_catalog =
     [candidate (1, 0, 0) ''/u.zip'', candidate (0, 13, 0) ''/t.zip'', candidate (0, 12, 0) ''/s.zip'']"
    by (simp add: demo_def demo_catalog_def sortDsc_def sort_Slice_def candidate_def)
  note T = absent_constraint_accepts_every_version [OF a b c c']
  have k: "Check [] (1 :: nat, 0 :: nat, 0 :: nat)"
    using T [THEN conjunct2, THEN conjunct1] by (rule spec)
  have i: "install ?E world0 =
     install_candidate ?E (candidate (1, 0, 0) ''/u.zip'') world0"
    using T [THEN conjunct2, THEN conjunct2, THEN conjunct1, rule_format, OF g, of world0]
    by (simp only: s list.case)
  have o: "os_Open ?E (tfVersionsDirPath ?E) = None \<and>
      Readdir ?E (tfVersionsDirPath ?E) = Inr [''0.13.0'', ''1.0.0''] \<and>
      exec_scan ?E [''0.13.0'', ''1.0.0''] = Inr [installed (0, 13, 0), installed (1, 0, 0)]"
    using demo_exec_scan [of "[]" "[''0.13.0'', ''1.0.0'']" demo_catalog]
    by (simp only: demo_fields simp_thms)
  have p: "path_Join ?E [tfVersionsDirPath ?E, Version_String ?E (Version (installed (1, 0, 0))), ''terraform'']
      = ''/v/1.0.0/terraform''"
    by (simp add: demo_fields installed_def decimal.simps)
  have x: "exec ?E [''plan''] ?w = (?w, Replaced ''/v/1.0.0/terraform'' [''terraform'', ''plan''])"
    using T [THEN conjunct2, THEN conjunct2, THEN conjunct2, rule_format, OF o, of "[''plan'']" ?w]
    unfolding demo_fields(1) demo_sortDsc_installed list.case p
    by (simp add: IsNotExist_def demo_fields)
  from a b c T [THEN conjunct1] k i x show ?thesis by (intro conjI)
qed

section \<open>Claim C9: main with an unknown subcommand\<close>

text \<open>
  Claim C9. With at least two entries in \<open>os.Args\<close>, a program name whose base is not
  \<open>terraform\<close> and a second entry that is none of \<open>list\<close>, \<open>install\<close> and \<open>exec\<close>,
  \<open>main\<close> returns and leaves the world as it was: nothing is printed, no URL is requested,
  no directory or file changes. Returning from \<open>main\<close> is exit status 0.
\<close>

theorem main_unknown_subcommand_does_nothing:
  assumes "2 \<le> length Args" and "path_Base E (Args ! 0) \<noteq> ''terraform''"
    and "Args ! 1 \<noteq> ''list''" and "Args ! 1 \<noteq> ''install''" and "Args ! 1 \<noteq> ''exec''"
  shows "main E Args w = (w, Return) \<and> exit_status (snd (main E Args w)) = Some 0"
proof -
  from assms(1) obtain arg0 args where A: "Args = arg0 # args" by (cases Args) auto
  with assms show ?thesis by (simp add: main_def)
qed

theorem main_unknown_subcommand_does_nothing_witness:
  "2 \<le> length [''/usr/bin/tvm'', ''version''] \<and>
   path_Base (demo [] [] demo_catalog) ([''/usr/bin/tvm'', ''version''] ! 0) \<noteq> ''terraform'' \<and>
   [''/usr/bin/tvm'', ''version''] ! 1 \<noteq> ''list'' \<and>
   main (demo [] [] demo_catalog) [''/usr/bin/tvm'', ''version''] world0 = (world0, Return) \<and>
   exit_status (snd (main (demo [] [] demo_catalog) [''/usr/bin/tvm'', ''version''] world0)) = Some 0"
proof -
  have b: "path_Base (demo [] [] demo_catalog) ([''/usr/bin/tvm'', ''version''] ! 0) \<noteq> ''terraform''"
    by (simp add: demo_def last_element_def)
  show ?thesis
    using main_unknown_subcommand_does_nothing
      [of "[''/usr/bin/tvm'', ''version'']" "demo [] [] demo_catalog" world0] b
    by simp
qed

section \<open>Claim C10: a version that is already installed\<close>

text \<open>
  Claim C10. The install directory of the selected candidate exists and holds a binary.
  Nothing in \<open>install\<close> looks at that binary: the directory check only decides whether
  \<open>os.Mkdir\<close> is called, and the same download and extraction follow in both cases. When
  no call fails, verification does not stop the installation and the archive holds the
  binary, the archive is requested again, the binary in the install directory is
  overwritten with the one of the archive, and the success message is printed.
\<close>

theorem install_reinstalls_existing_version:
  assumes "install_dir E c \<in> dirs w" and "files w (binary_path E c) = Some old"
    and "URL c = Some url" and "os_Create E (archive_path E url) = None"
    and "http_Get E url = Inr resp" and "BodyErr resp = None"
    and "snd (install_verify E c (path_Base E (URL_Path E url)) (sha256_Sum E (Body resp)) w) = Proceed"
    and "zip_OpenReader E (Body resp) = Inr archive" and "list_all entry_ok archive"
    and "filter (\<lambda>f. Name f = ''terraform'') archive \<noteq> []"
    and "os_Create E (binary_path E c) = None" and "Chmod E (binary_path E c) = None"
    and "archive_path E url \<noteq> binary_path E c"
  shows "install_candidate E c w = install_fetch E c (install_dir E c) w \<and>
         (\<exists>w' rs. install_candidate E c w = (w', Return) \<and>
            requests w' = requests w @ url # rs \<and>
            files w' (binary_path E c) = Some (Data (last (filter (\<lambda>f. Name f = ''terraform'') archive))) \<and>
            dirs w' = dirs w \<and>
            stdout w' \<noteq> [] \<and>
            last (stdout w') = ''Successfully installed Terraform version '' @ Version_String E (Version c))"
proof -
  let ?ap = "archive_path E url"
  let ?w1 = "downloaded ?ap url (Body resp) w"
  have ex: "\<not> IsNotExist w (install_dir E c)" using assms(1) by (simp add: IsNotExist_def)
  then have wd: "with_dir (install_dir E c) w = w" by (simp add: with_dir_def)
  have c1: "install_candidate E c w = install_fetch E c (install_dir E c) w"
    using install_candidate_with_dir [of w E c] ex wd by simp
  obtain w3 v where v: "install_verify E c (path_Base E (URL_Path E url)) (sha256_Sum E (Body resp)) ?w1 = (w3, v)"
    by (cases "install_verify E c (path_Base E (URL_Path E url)) (sha256_Sum E (Body resp)) ?w1")
  have "v = Proceed"
    using install_verify_verdict [of E c "path_Base E (URL_Path E url)" "sha256_Sum E (Body resp)" ?w1 w]
      v assms(7) by simp
  from install_verify_world [OF v] obtain rs where
    w3: "files w3 = files ?w1" "dirs w3 = dirs ?w1" "requests w3 = requests ?w1 @ rs"
    by blast
  have fa: "files w3 ?ap = Some (Body resp)" using w3(1) by (simp add: downloaded_def)
  note u = install_unpack_ok [OF fa assms(8,9) assms(11,12) [unfolded binary_path_def], of c]
  from assms(10) obtain t ts where ts: "filter (\<lambda>f. Name f = ''terraform'') archive = t # ts"
    by (cases "filter (\<lambda>f. Name f = ''terraform'') archive") auto
  let ?w' = "install_deferred ?ap
     (println (''Successfully installed Terraform version '' @ Version_String E (Version c))
        (w3\<lparr>files := (files w3)(binary_path E c \<mapsto> Data (last (t # ts)))\<rparr>))"
  have run: "install_candidate E c w = (?w', Return)"
    using v \<open>v = Proceed\<close> u ts
    by (simp add: c1 install_fetch_downloaded [OF assms(3-6)] binary_path_def)
  have r: "requests ?w' = requests w @ url # rs"
    using w3(3) by (simp add: install_deferred_def println_def downloaded_def)
  have f: "files ?w' (binary_path E c) = Some (Data (last (filter (\<lambda>f. Name f = ''terraform'') archive)))"
    using assms(13) ts by (simp add: install_deferred_def println_def)
  have d: "dirs ?w' = dirs w"
    using w3(2) by (simp add: install_deferred_def println_def downloaded_def)
  have s: "stdout ?w' \<noteq> [] \<and>
      last (stdout ?w') = ''Successfully installed Terraform version '' @ Version_String E (Version c)"
    by (simp add: install_deferred_def println_def)
  from c1 run r f d s show ?thesis by blast
qed

theorem install_reinstalls_existing_version_witness:
  "''/v/0.13.0'' \<in> dirs world1 \<and>
   files world1 ''/v/0.13.0/terraform'' = Some ''old binary'' \<and>
   (\<exists>w' rs. install_candidate (demo [] [] []) (candidate (0, 13, 0) ''/t.zip'') world1 = (w', Return) \<and>
      requests w' = ''/t.zip'' # rs \<and>
      files w' ''/v/0.13.0/terraform'' = Some ''new binary'' \<and>
      last (stdout w') = ''Successfully installed Terraform version 0.13.0'')"
proof -
  let ?E = "demo [] [] [] :: (semver, string) env"
  let ?c = "candidate (0, 13, 0) ''/t.zip''"
  let ?resp = "\<lparr>Body = ''PK'', BodyErr = None\<rparr>"
  let ?archive = "[\<lparr>Name = ''README'', OpenErr = None, Data = ''text'', DataErr = None\<rparr>,
          \<lparr>Name = ''terraform'', OpenErr = None, Data = ''new binary'', DataErr = None\<rparr>]"
  have a1: "''/v/0.13.0'' \<in> dirs world1" by (simp add: world1_def)
  have a2: "files world1 ''/v/0.13.0/terraform'' = Some ''old binary''" by (simp add: world1_def)
  have h1: "install_dir ?E ?c \<in> dirs world1" unfolding demo_paths by (rule a1)
  have h2: "files world1 (binary_path ?E ?c) = Some ''old binary''" unfolding demo_paths by (rule a2)
  have h3: "URL ?c = Some ''/t.zip''" by (simp add: candidate_def)
  have h4: "os_Create ?E (archive_path ?E ''/t.zip'') = None" by (simp add: demo_fields)
  have h5: "http_Get ?E ''/t.zip'' = Inr ?resp" by (simp add: demo_fields demo_Get_def)
  have h6: "BodyErr ?resp = None" by simp
  have h7: "snd (install_verify ?E ?c (path_Base ?E (URL_Path ?E ''/t.zip'')) (sha256_Sum ?E (Body ?resp)) world1) = Proceed"
    by (simp add: install_verify_def candidate_def)
  have h8: "zip_OpenReader ?E (Body ?resp) = Inr ?archive" by (simp add: demo_archive)
  have h9: "list_all entry_ok ?archive" by (simp add: entry_ok_def)
  have h10: "filter (\<lambda>f. Name f = ''terraform'') ?archive \<noteq> []" by simp
  have h11: "os_Create ?E (binary_path ?E ?c) = None" "Chmod ?E (binary_path ?E ?c) = None"
    "archive_path ?E ''/t.zip'' \<noteq> binary_path ?E ?c"
    by (simp_all add: demo_fields demo_paths)
  have zl: "Data (last (filter (\<lambda>f. Name f = ''terraform'') ?archive)) = ''new binary''" by simp
  have vs: "Version_String ?E (Version ?c) = ''0.13.0''"
    by (simp add: demo_fields candidate_def decimal.simps)
  from install_reinstalls_existing_version [OF h1 h2 h3 h4 h5 h6 h7 h8 h9 h10 h11]
  have "\<exists>w' rs. install_candidate ?E ?c world1 = (w', Return) \<and>
            requests w' = requests world1 @ ''/t.zip'' # rs \<and>
            files w' (binary_path ?E ?c) = Some (Data (last (filter (\<lambda>f. Name f = ''terraform'') ?archive))) \<and>
            last (stdout w') = ''Successfully installed Terraform version '' @ Version_String ?E (Version ?c)"
    by blast
  then have "\<exists>w' rs. install_candidate ?E ?c world1 = (w', Return) \<and>
      requests w' = ''/t.zip'' # rs \<and>
      files w' ''/v/0.13.0/terraform'' = Some ''new binary'' \<and>
      last (stdout w') = ''Successfully installed Terraform version 0.13.0''"
    unfolding vs zl demo_paths by (simp add: world1_def)
  with a1 a2 show ?thesis by (intro conjI)
qed

end
